theory Spec2Isabelle
  imports Main
begin

section \<open>The local development manager of the HubSpot CLI\<close>

text \<open>
  This theory embeds \<^verbatim>\<open>packages/cli/lib/LocalDevManager.js\<close>: the class that watches a
  project directory, classifies each change through the dev server, uploads the changes that
  need it to a staged build through a bounded upload queue, and queues a build once the
  uploads have been quiet for a while.

  The class is a JavaScript object with mutable fields, driven by callbacks. The embedding
  passes the state explicitly:
  \<^item> \<open>ldm\<close> holds the data fields the constructor assigns;
  \<open>world\<close> extends it with the objects the instance works against after \<^verbatim>\<open>start()\<close>:
  the upload queue, the pending timeouts of the runtime, its clock, and the list of
  \<open>effects\<close>, the calls made so far to the collaborators (logger, spinnies, watcher,
  dev server, remote API, the queue and the timer functions), oldest first;
  \<^item> what a collaborator answers is read from a record \<open>ext\<close>, so every theorem holds for
  every answer;
  \<^item> a method is a function from \<open>world\<close> to \<open>result\<close>: it returns, or the process exits,
  or an exception escapes, or the method is left waiting on a promise that nothing in its
  own run resolves;
  \<^item> an \<^verbatim>\<open>await\<close> on a collaborator is resolved in place with the answer of \<open>ext\<close>. An
  \<^verbatim>\<open>await\<close> on the upload queue lets the uploads in flight settle, oldest first. Calls that
  the source does not await (\<^verbatim>\<open>this.stop()\<close>, the last \<^verbatim>\<open>this.flushStandbyChanges()\<close> of
  \<^verbatim>\<open>queueBuild\<close>) are marked where they occur.

  Not embedded are the methods that only set the session up or draw it: \<^verbatim>\<open>start\<close>,
  \<^verbatim>\<open>startServers\<close>, \<^verbatim>\<open>startWatching\<close>, \<^verbatim>\<open>updateConsoleHeader\<close>
  and \<^verbatim>\<open>handleServerLog\<close>. A session starts from a \<open>world\<close> as \<^verbatim>\<open>start()\<close> leaves it.
\<close>

subsection \<open>Constants and data\<close>

definition i18nKey :: string where
  "i18nKey = ''cli.lib.LocalDevManager''"

definition BUILD_DEBOUNCE_TIME :: nat where
  "BUILD_DEBOUNCE_TIME = 3500"

text \<open>\<^verbatim>\<open>WATCH_EVENTS\<close> and \<^verbatim>\<open>UPLOAD_PERMISSIONS\<close>.\<close>

datatype watch_event = add | change | unlink | unlinkDir

datatype upload_permission = always | manual | never

text \<open>\<^verbatim>\<open>EXIT_CODES\<close> and the sub-categories of \<^verbatim>\<open>ERROR_TYPES\<close> that the class tests for.\<close>

datatype exit_code = SUCCESS | ERROR

datatype error_type = BUILD_NOT_IN_PROGRESS | PROJECT_LOCKED | MISSING_PROJECT_PROVISION

text \<open>
  A thrown value. \<open>TypeError\<close> is what the language raises on a property read of
  \<^verbatim>\<open>undefined\<close> and what \<^verbatim>\<open>path.join\<close> raises on an argument that is no string; \<open>Error\<close> is
  any value a collaborator rejects with, told apart only by \<open>isSpecifiedError\<close>.
\<close>

datatype js_error = TypeError | Error string

record project_config =
  name :: string
  srcDir :: string

text \<open>
  The object built in \<^verbatim>\<open>handleWatchEvent\<close>. \<open>supported\<close> is absent (\<open>None\<close>) until a copy
  is made for the standby list.
\<close>

record changeInfo =
  event :: watch_event
  filePath :: string
  remotePath :: string
  supported :: "bool option"

record notifyResponse =
  uploadRequired :: bool

text \<open>A message: the key given to \<^verbatim>\<open>i18n\<close> with its interpolation values, or a literal.\<close>

datatype message = i18n string "(string \<times> string) list" | literal string

text \<open>
  A spinner key: a name chosen by the caller, or the key that \<^verbatim>\<open>spinnies.add(null, ...)\<close>
  makes up and returns.
\<close>

datatype skey = Key string | Generated nat

datatype timeout = Timeout nat

text \<open>
  The two kinds of closure handed to the upload queue: the one of \<^verbatim>\<open>handleWatchEvent\<close>
  (only \<^verbatim>\<open>sendChanges\<close>) and the one of \<^verbatim>\<open>flushStandbyChanges\<close> (re-arm the debounce, then
  \<^verbatim>\<open>sendChanges\<close>).
\<close>

datatype task = SendChangesTask changeInfo | FlushTask changeInfo

datatype removeAll_options = preserveCategory string | targetCategory string

text \<open>
  The calls to collaborators. Display options other than the text and the status of a
  spinner (colours, indentation, category) are left out.
\<close>

datatype effect =
    LoggerLog message
  | LoggerDebug js_error
  | LoggerDebugText string
  | LoggerError js_error
  | LogApiErrorInstance js_error nat string
  | ProcessExit exit_code
  | SpinniesAdd skey message "string option"
  | SpinniesUpdate skey message "string option"
  | SpinniesRemove skey
  | SpinniesRemoveAll removeAll_options
  | SpinniesSucceed skey message
  | SpinniesFail skey message
  | WatcherClose
  | DevServerNotify changeInfo
  | DevServerExecute changeInfo notifyResponse
  | DevServerCleanup
  | CancelStagedBuild nat string
  | UploadFileToBuild nat string string string
  | DeleteFileFromBuild nat string string
  | ProvisionBuild nat string
  | QueueBuild nat string
  | PollProjectBuildAndDeploy nat project_config "nat option"
  | UploadQueuePause
  | UploadQueueOnIdleResolved
  | UploadQueueStart
  | UploadQueueAdd task
  | SetTimeout timeout nat
  | ClearTimeout timeout

text \<open>
  The upload queue, \<^verbatim>\<open>new PQueue({ concurrency: 10 })\<close>: \<open>waiting\<close> are the tasks added and
  not yet started, \<open>pending\<close> the uploads in flight, each with the key of its spinner.
\<close>

record pqueue =
  isPaused :: bool
  waiting :: "task list"
  pending :: "(changeInfo \<times> skey) list"

definition concurrency :: nat where
  "concurrency = 10"

record ldm =
  targetAccountId :: nat
  projectConfig :: project_config
  projectDir :: string
  port :: "nat option"
  uploadPermission :: upload_permission
  debug :: bool
  projectSourceDir :: string
  standbyChanges :: "changeInfo list"
  debouncedBuild :: "timeout option"
  currentStagedBuildId :: "nat option"

record world = ldm +
  uploadQueue :: pqueue
  effects :: "effect list"
  timers :: "(timeout \<times> nat) list"
  clock :: nat
  nextTimeout :: nat
  nextSpinniesKey :: nat

text \<open>
  The collaborators: pure helpers of other modules, and what each asynchronous call answers
  (\<open>Inl\<close> or \<open>Some\<close> is a rejection).
\<close>

record ext =
  path_join :: "string \<Rightarrow> string \<Rightarrow> string"
  path_relative :: "string \<Rightarrow> string \<Rightarrow> string"
  uiAccountDescription :: "nat \<Rightarrow> string"
  isAllowedExtension :: "string \<Rightarrow> string list \<Rightarrow> bool"
  shouldIgnoreFile :: "string \<Rightarrow> bool \<Rightarrow> bool"
  isSpecifiedError :: "js_error \<Rightarrow> error_type \<Rightarrow> bool"
  notify :: "changeInfo \<Rightarrow> js_error + notifyResponse"
  execute :: "changeInfo \<Rightarrow> notifyResponse \<Rightarrow> js_error option"
  cleanup :: "js_error option"
  cancelStagedBuild :: "js_error option"
  uploadFileToBuild :: "string \<Rightarrow> string \<Rightarrow> js_error option"
  deleteFileFromBuild :: "string \<Rightarrow> js_error option"
  provisionBuild :: "js_error + nat"
  queueBuildRequest :: "js_error option"

datatype result =
    Returned world
  | Exited exit_code world
  | Threw js_error world
  | Blocked world

definition andThen :: "result \<Rightarrow> (world \<Rightarrow> result) \<Rightarrow> result" where
  "andThen r f = (case r of Returned s \<Rightarrow> f s | Exited c s \<Rightarrow> Exited c s
     | Threw e s \<Rightarrow> Threw e s | Blocked s \<Rightarrow> Blocked s)"

definition final :: "result \<Rightarrow> world" where
  "final r = (case r of Returned s \<Rightarrow> s | Exited c s \<Rightarrow> s | Threw e s \<Rightarrow> s | Blocked s \<Rightarrow> s)"

subsection \<open>Small helpers of the language\<close>

text \<open>\<^verbatim>\<open>String.prototype.includes\<close>.\<close>

fun str_includes :: "string \<Rightarrow> string \<Rightarrow> bool" where
  "str_includes [] sub = (sub = [])"
| "str_includes (c # cs) sub = (take (length sub) (c # cs) = sub \<or> str_includes cs sub)"

text \<open>Truthiness of a number that may be absent: \<^verbatim>\<open>undefined\<close>, \<^verbatim>\<open>null\<close> and \<open>0\<close> are falsy.\<close>

definition truthy :: "nat option \<Rightarrow> bool" where
  "truthy v = (case v of None \<Rightarrow> False | Some n \<Rightarrow> n \<noteq> 0)"

definition emit :: "effect \<Rightarrow> world \<Rightarrow> world" where
  "emit e s = s\<lparr>effects := effects s @ [e]\<rparr>"

text \<open>\<^verbatim>\<open>this.spinnies.add(null, ...)\<close>: the spinner gets a fresh key, which is returned.\<close>

definition spinniesAddNull :: "message \<Rightarrow> string option \<Rightarrow> world \<Rightarrow> skey \<times> world" where
  "spinniesAddNull t st s =
     (let k = Generated (nextSpinniesKey s)
      in (k, emit (SpinniesAdd k t st) (s\<lparr>nextSpinniesKey := Suc (nextSpinniesKey s)\<rparr>)))"

subsection \<open>Status, standby list, classification\<close>

definition updateDevModeStatus :: "string \<Rightarrow> world \<Rightarrow> world" where
  "updateDevModeStatus langKey s =
     emit (SpinniesUpdate (Key ''devModeStatus'')
             (i18n (i18nKey @ ''.header.status.'' @ langKey) []) (Some ''non-spinnable'')) s"

definition hasAnyUnsupportedStandbyChanges :: "world \<Rightarrow> bool" where
  "hasAnyUnsupportedStandbyChanges s =
     list_ex (\<lambda>c. supported c \<noteq> Some True) (standbyChanges s)"

definition addChangeToStandbyQueue :: "ext \<Rightarrow> changeInfo \<Rightarrow> world \<Rightarrow> world" where
  "addChangeToStandbyQueue X ci s =
     (if (event ci = add \<or> event ci = change) \<and> \<not> isAllowedExtension X (filePath ci) [''jsx'']
      then emit (LoggerDebugText (''Extension not allowed: '' @ filePath ci)) s
      else if shouldIgnoreFile X (filePath ci) True
      then emit (LoggerDebugText (''File ignored: '' @ filePath ci)) s
      else s\<lparr>standbyChanges := standbyChanges s @ [ci]\<rparr>)"

definition notifyServers :: "ext \<Rightarrow> changeInfo \<Rightarrow> world \<Rightarrow> notifyResponse \<times> world" where
  "notifyServers X ci s =
     (let s1 = emit (DevServerNotify ci) s
      in case notify X ci of
           Inr response \<Rightarrow> (response, s1)
         | Inl e \<Rightarrow>
             (\<lparr>uploadRequired = True\<rparr>,
              emit (SpinniesAdd (Key ''devServerNotifyError'')
                      (i18n (i18nKey @ ''.content.devServerNotifyError'') [])
                      (Some ''non-spinnable''))
                (if debug s1 then emit (LoggerError e) s1 else s1)))"

definition executeServers :: "ext \<Rightarrow> changeInfo \<Rightarrow> notifyResponse \<Rightarrow> world \<Rightarrow> world" where
  "executeServers X ci response s =
     (let s1 = emit (DevServerExecute ci response) s
      in case execute X ci response of
           None \<Rightarrow> s1
         | Some e \<Rightarrow>
             emit (SpinniesAdd (Key ''devServerExecuteError'')
                     (i18n (i18nKey @ ''.content.devServerExecuteError'') [])
                     (Some ''non-spinnable''))
               (if debug s1 then emit (LoggerError e) s1 else s1))"

definition cleanupServers :: "ext \<Rightarrow> world \<Rightarrow> world" where
  "cleanupServers X s =
     (let s1 = emit DevServerCleanup s
      in case cleanup X of
           None \<Rightarrow> s1
         | Some e \<Rightarrow>
             emit (SpinniesAdd (Key ''devServerCleanupError'')
                     (i18n (i18nKey @ ''.content.devServerCleanupError'') [])
                     (Some ''non-spinnable''))
               (if debug s1 then emit (LoggerError e) s1 else s1))"

definition stopWatching :: "world \<Rightarrow> world" where
  "stopWatching s = emit WatcherClose s"

definition clearConsoleContent :: "world \<Rightarrow> world" where
  "clearConsoleContent s = emit (SpinniesRemoveAll (preserveCategory ''header'')) s"

subsection \<open>Uploading one change\<close>

text \<open>
  \<^verbatim>\<open>sendChanges\<close> in two steps, because the method waits for the remote call in between:
  \<open>sendChangesCall\<close> is the part up to the call (lines 431 to 457), \<open>sendChangesSettle\<close> the
  part that runs once the call has settled (the \<^verbatim>\<open>catch\<close> and lines 462 to 467).
\<close>

definition sendChangesCall :: "changeInfo \<Rightarrow> world \<Rightarrow> skey \<times> world" where
  "sendChangesCall ci s =
     (let (spinniesKey, s1) =
            spinniesAddNull (i18n (i18nKey @ ''.content.uploadingChange'')
                               [(''filePath'', remotePath ci)]) (Some ''non-spinnable'') s
      in (spinniesKey,
          if event ci = add \<or> event ci = change
          then emit (UploadFileToBuild (targetAccountId s1) (name (projectConfig s1))
                       (filePath ci) (remotePath ci)) s1
          else if event ci = unlink \<or> event ci = unlinkDir
          then emit (DeleteFileFromBuild (targetAccountId s1) (name (projectConfig s1))
                       (remotePath ci)) s1
          else s1))"

definition sendChangesSettle :: "ext \<Rightarrow> changeInfo \<Rightarrow> skey \<Rightarrow> world \<Rightarrow> world" where
  "sendChangesSettle X ci spinniesKey s =
     (let answer =
            (if event ci = add \<or> event ci = change
             then uploadFileToBuild X (filePath ci) (remotePath ci)
             else if event ci = unlink \<or> event ci = unlinkDir
             then deleteFileFromBuild X (remotePath ci)
             else None);
          s1 = (case answer of Some err \<Rightarrow> emit (LoggerDebug err) s | None \<Rightarrow> s)
      in emit (SpinniesUpdate spinniesKey
                 (i18n (i18nKey @ ''.upload.uploadedChange'') [(''filePath'', remotePath ci)])
                 (Some ''non-spinnable'')) s1)"

subsection \<open>The debounced build\<close>

text \<open>
  \<^verbatim>\<open>setTimeout\<close> and \<^verbatim>\<open>clearTimeout\<close> of the runtime. The only callback the class ever
  registers is \<^verbatim>\<open>this.queueBuild\<close>, so a pending timeout is its handle and its deadline.
  A handle is an object, hence truthy.
\<close>

definition clearTimeout :: "timeout \<Rightarrow> world \<Rightarrow> world" where
  "clearTimeout h s = emit (ClearTimeout h) (s\<lparr>timers := filter (\<lambda>p. fst p \<noteq> h) (timers s)\<rparr>)"

definition setTimeout :: "nat \<Rightarrow> world \<Rightarrow> timeout \<times> world" where
  "setTimeout delay s =
     (let h = Timeout (nextTimeout s)
      in (h, emit (SetTimeout h delay)
               (s\<lparr>timers := timers s @ [(h, clock s + delay)],
                  nextTimeout := Suc (nextTimeout s)\<rparr>)))"

definition debounceQueueBuild :: "world \<Rightarrow> world" where
  "debounceQueueBuild s =
     (let s1 = (if uploadPermission s = always then updateDevModeStatus ''uploadPending'' s else s);
          s2 = (case debouncedBuild s1 of Some h \<Rightarrow> clearTimeout h s1 | None \<Rightarrow> s1);
          (h, s3) = setTimeout BUILD_DEBOUNCE_TIME s2
      in s3\<lparr>debouncedBuild := Some h\<rparr>)"

subsection \<open>The upload queue\<close>

text \<open>
  Modelled from the spec: the upload queue is an object of the package \<^verbatim>\<open>p-queue\<close>, which is
  not part of the sources. Its operations follow section 4.2 and 5 of the specification and
  the contract of the package: a task that is added runs immediately if there is capacity
  and the queue is not paused; tasks begin in submission order; pausing stops new starts;
  starting allows them again; the promise of \<^verbatim>\<open>onIdle()\<close> resolves when nothing is waiting
  and nothing is in flight; the promise of \<^verbatim>\<open>addAll(...)\<close> resolves when the tasks have run.

  \<open>runTask\<close> is the start of a task: the body of the closure up to the remote call it waits
  for. The upload is then in flight.
\<close>

definition runTask :: "task \<Rightarrow> world \<Rightarrow> world" where
  "runTask t s =
     (case t of
        SendChangesTask ci \<Rightarrow>
          (let (k, s1) = sendChangesCall ci s
           in s1\<lparr>uploadQueue := (uploadQueue s1)\<lparr>pending := pending (uploadQueue s1) @ [(ci, k)]\<rparr>\<rparr>)
      | FlushTask ci \<Rightarrow>
          (let s0 = (if uploadPermission s = always \<and> \<not> isPaused (uploadQueue s)
                     then debounceQueueBuild s else s);
               (k, s1) = sendChangesCall ci s0
           in s1\<lparr>uploadQueue := (uploadQueue s1)\<lparr>pending := pending (uploadQueue s1) @ [(ci, k)]\<rparr>\<rparr>))"

definition tryToStartAnother :: "world \<Rightarrow> world option" where
  "tryToStartAnother s =
     (case waiting (uploadQueue s) of
        [] \<Rightarrow> None
      | t # ts \<Rightarrow>
          if \<not> isPaused (uploadQueue s) \<and> length (pending (uploadQueue s)) < concurrency
          then Some (runTask t (s\<lparr>uploadQueue := (uploadQueue s)\<lparr>waiting := ts\<rparr>\<rparr>))
          else None)"

lemma uploadQueue_emit [simp]: "uploadQueue (emit e s) = uploadQueue s"
  by (simp add: emit_def)

lemma uploadQueue_spinniesAddNull [simp]:
  "uploadQueue (snd (spinniesAddNull t st s)) = uploadQueue s"
  by (simp add: spinniesAddNull_def Let_def)

lemma uploadQueue_sendChangesCall [simp]: "uploadQueue (snd (sendChangesCall ci s)) = uploadQueue s"
  by (simp add: sendChangesCall_def spinniesAddNull_def Let_def)

lemma uploadQueue_sendChangesSettle [simp]:
  "uploadQueue (sendChangesSettle X ci k s) = uploadQueue s"
  by (simp add: sendChangesSettle_def Let_def split: option.splits)

lemma uploadQueue_debounceQueueBuild [simp]: "uploadQueue (debounceQueueBuild s) = uploadQueue s"
  by (simp add: debounceQueueBuild_def setTimeout_def clearTimeout_def updateDevModeStatus_def
      Let_def split: option.splits)

lemma uploadQueue_runTask:
  "uploadQueue (runTask t s) =
     (uploadQueue s)\<lparr>pending := pending (uploadQueue s) @ [(case t of SendChangesTask ci \<Rightarrow> ci | FlushTask ci \<Rightarrow> ci,
        fst (sendChangesCall (case t of SendChangesTask ci \<Rightarrow> ci | FlushTask ci \<Rightarrow> ci)
               (case t of SendChangesTask ci \<Rightarrow> s
                | FlushTask ci \<Rightarrow> if uploadPermission s = always \<and> \<not> isPaused (uploadQueue s)
                                   then debounceQueueBuild s else s)))]\<rparr>"
  by (cases t) (simp_all add: runTask_def Let_def split_beta)

lemma tryToStartAnother_waiting:
  "tryToStartAnother s = Some s' \<Longrightarrow>
     length (waiting (uploadQueue s')) < length (waiting (uploadQueue s))"
  by (auto simp: tryToStartAnother_def uploadQueue_runTask split: list.splits if_splits)

lemma tryToStartAnother_pending:
  "tryToStartAnother s = Some s' \<Longrightarrow>
     length (pending (uploadQueue s')) = Suc (length (pending (uploadQueue s)))"
  by (auto simp: tryToStartAnother_def uploadQueue_runTask split: list.splits if_splits)

function processQueue :: "world \<Rightarrow> world" where
  "processQueue s = (case tryToStartAnother s of None \<Rightarrow> s | Some s' \<Rightarrow> processQueue s')"
  by pat_completeness auto
termination
  by (relation "measure (\<lambda>s. length (waiting (uploadQueue s)))")
     (auto simp: tryToStartAnother_waiting)

declare processQueue.simps [simp del]

definition uploadQueue_add :: "task \<Rightarrow> world \<Rightarrow> world" where
  "uploadQueue_add t s =
     (let s1 = emit (UploadQueueAdd t) s;
          s2 = s1\<lparr>uploadQueue := (uploadQueue s1)\<lparr>waiting := waiting (uploadQueue s1) @ [t]\<rparr>\<rparr>
      in case tryToStartAnother s2 of None \<Rightarrow> s2 | Some s3 \<Rightarrow> s3)"

definition uploadQueue_addAll :: "task list \<Rightarrow> world \<Rightarrow> world" where
  "uploadQueue_addAll ts s = fold uploadQueue_add ts s"

definition uploadQueue_pause :: "world \<Rightarrow> world" where
  "uploadQueue_pause s =
     emit UploadQueuePause (s\<lparr>uploadQueue := (uploadQueue s)\<lparr>isPaused := True\<rparr>\<rparr>)"

definition uploadQueue_start :: "world \<Rightarrow> world" where
  "uploadQueue_start s =
     (let s1 = emit UploadQueueStart s
      in if \<not> isPaused (uploadQueue s1) then s1
         else processQueue (s1\<lparr>uploadQueue := (uploadQueue s1)\<lparr>isPaused := False\<rparr>\<rparr>))"

text \<open>
  The oldest upload in flight settles: \<^verbatim>\<open>sendChanges\<close> finishes, the task leaves the queue,
  and the queue starts the next waiting task if it may.
\<close>

definition settleOldest :: "ext \<Rightarrow> world \<Rightarrow> world" where
  "settleOldest X s =
     (case pending (uploadQueue s) of
        [] \<Rightarrow> s
      | p # rest \<Rightarrow>
          (let s1 = sendChangesSettle X (fst p) (snd p) s;
               s2 = s1\<lparr>uploadQueue := (uploadQueue s1)\<lparr>pending := rest\<rparr>\<rparr>
           in case tryToStartAnother s2 of None \<Rightarrow> s2 | Some s3 \<Rightarrow> s3))"

lemma settleOldest_measure:
  "pending (uploadQueue s) \<noteq> [] \<longrightarrow>
     length (waiting (uploadQueue (settleOldest X s))) + length (pending (uploadQueue (settleOldest X s)))
       < length (waiting (uploadQueue s)) + length (pending (uploadQueue s))"
proof (cases "pending (uploadQueue s)")
  case Nil
  then show ?thesis by simp
next
  case (Cons p rest)
  define s2 where
    "s2 = (sendChangesSettle X (fst p) (snd p) s)
            \<lparr>uploadQueue := (uploadQueue (sendChangesSettle X (fst p) (snd p) s))\<lparr>pending := rest\<rparr>\<rparr>"
  have q: "waiting (uploadQueue s2) = waiting (uploadQueue s)" "pending (uploadQueue s2) = rest"
    by (simp_all add: s2_def)
  have step: "settleOldest X s = (case tryToStartAnother s2 of None \<Rightarrow> s2 | Some s3 \<Rightarrow> s3)"
    by (simp add: settleOldest_def Cons Let_def s2_def cong: option.case_cong)
  show ?thesis
  proof (cases "tryToStartAnother s2")
    case None
    then show ?thesis by (simp add: step q Cons)
  next
    case (Some s3)
    from tryToStartAnother_waiting [OF Some] tryToStartAnother_pending [OF Some]
    show ?thesis by (simp add: step Some q Cons)
  qed
qed

function settleAll :: "ext \<Rightarrow> world \<Rightarrow> world" where
  "settleAll X s = (if pending (uploadQueue s) = [] then s else settleAll X (settleOldest X s))"
  by pat_completeness auto
termination
  by (relation "measure (\<lambda>(X, s). length (waiting (uploadQueue s)) + length (pending (uploadQueue s)))")
     (auto simp: settleOldest_measure)

declare settleAll.simps [simp del]

text \<open>
  Waiting for a promise of the queue: the uploads in flight settle one after the other. If
  tasks are still waiting after that (the queue is paused), the promise stays unresolved.
\<close>

definition whenSettled :: "ext \<Rightarrow> world \<Rightarrow> result" where
  "whenSettled X s =
     (let s1 = settleAll X s
      in if waiting (uploadQueue s1) = [] then Returned s1 else Blocked s1)"

definition uploadQueue_onIdle :: "ext \<Rightarrow> world \<Rightarrow> result" where
  "uploadQueue_onIdle X s =
     andThen (whenSettled X s) (\<lambda>s1. Returned (emit UploadQueueOnIdleResolved s1))"

definition pauseUploadQueue :: "ext \<Rightarrow> world \<Rightarrow> result" where
  "pauseUploadQueue X s = uploadQueue_onIdle X (uploadQueue_pause s)"

subsection \<open>Flushing the standby list\<close>

text \<open>
  \<^verbatim>\<open>flushStandbyChanges\<close> waits for the promise of \<^verbatim>\<open>addAll\<close> before it empties the list.
  \<open>flushStandbyChanges_begin\<close> is the method up to that \<^verbatim>\<open>await\<close> (lines 550 to 563),
  \<open>flushStandbyChanges_resume\<close> what runs after it (line 564); \<open>flushStandbyChanges\<close> is the
  whole method when nothing else runs in between.
\<close>

definition flushStandbyChanges_begin :: "world \<Rightarrow> world" where
  "flushStandbyChanges_begin s =
     (if standbyChanges s \<noteq> [] then uploadQueue_addAll (map FlushTask (standbyChanges s)) s
      else s)"

definition flushStandbyChanges_resume :: "world \<Rightarrow> world" where
  "flushStandbyChanges_resume s = s\<lparr>standbyChanges := []\<rparr>"

definition flushStandbyChanges :: "ext \<Rightarrow> world \<Rightarrow> result" where
  "flushStandbyChanges X s =
     (if standbyChanges s \<noteq> []
      then andThen (whenSettled X (flushStandbyChanges_begin s))
             (\<lambda>s1. Returned (flushStandbyChanges_resume s1))
      else Returned s)"

subsection \<open>The staged build and shutdown\<close>

definition createNewStagingBuild :: "ext \<Rightarrow> world \<Rightarrow> result" where
  "createNewStagingBuild X s =
     (let s1 = emit (ProvisionBuild (targetAccountId s) (name (projectConfig s))) s
      in case provisionBuild X of
           Inr buildId \<Rightarrow> Returned (s1\<lparr>currentStagedBuildId := Some buildId\<rparr>)
         | Inl err \<Rightarrow>
             (let s2 = emit (LoggerDebug err) s1
              in if isSpecifiedError X err PROJECT_LOCKED
                 then (let s3 = emit (CancelStagedBuild (targetAccountId s2) (name (projectConfig s2))) s2
                       in case cancelStagedBuild X of
                            Some e \<Rightarrow> Threw e s3
                          | None \<Rightarrow>
                              Exited ERROR
                                (emit (ProcessExit ERROR)
                                   (emit (LoggerLog (i18n (i18nKey @ ''.previousStagingBuildCancelled'') []))
                                      s3)))
                 else Exited ERROR (emit (ProcessExit ERROR) s2)))"

definition stop :: "ext \<Rightarrow> world \<Rightarrow> result" where
  "stop X s =
     (let s1 = clearConsoleContent s;
          s2 = emit (SpinniesAdd (Key ''cleanupMessage'') (i18n (i18nKey @ ''.exitingStart'') []) None) s1;
          s3 = stopWatching s2;
          s4 = cleanupServers X s3;
          (exitCode, s5) =
            (if truthy (currentStagedBuildId s4)
             then (let s' = emit (CancelStagedBuild (targetAccountId s4) (name (projectConfig s4))) s4
                   in case cancelStagedBuild X of
                        None \<Rightarrow> (SUCCESS, s')
                      | Some err \<Rightarrow>
                          if \<not> isSpecifiedError X err BUILD_NOT_IN_PROGRESS
                          then (ERROR,
                                emit (LogApiErrorInstance err (targetAccountId s')
                                        (name (projectConfig s'))) s')
                          else (SUCCESS, s'))
             else (SUCCESS, s4));
          s6 = (if exitCode = SUCCESS
                then emit (SpinniesSucceed (Key ''cleanupMessage'')
                             (i18n (i18nKey @ ''.exitingSucceed'') [])) s5
                else emit (SpinniesFail (Key ''cleanupMessage'')
                             (i18n (i18nKey @ ''.exitingFail'') [])) s5)
      in Exited exitCode (emit (ProcessExit exitCode) s6))"

subsection \<open>Queueing a build\<close>

text \<open>
  In \<^verbatim>\<open>queueBuild\<close>, \<^verbatim>\<open>this.stop()\<close> is called without \<^verbatim>\<open>await\<close> and followed by
  \<^verbatim>\<open>return\<close>: the shutdown runs on, up to the exit of the process. The last call,
  \<^verbatim>\<open>this.flushStandbyChanges()\<close>, is not awaited either: \<^verbatim>\<open>queueBuild\<close> is over once the
  tasks are handed to the queue. \<^verbatim>\<open>pollProjectBuildAndDeploy\<close> returns when the build has
  reached a terminal state.
\<close>

definition queueBuild :: "ext \<Rightarrow> world \<Rightarrow> result" where
  "queueBuild X s =
     (let (spinniesKey, s0) =
            spinniesAddNull (i18n (i18nKey @ ''.content.uploadingChanges'')
                               [(''accountIdentifier'', uiAccountDescription X (targetAccountId s))])
              None s
      in andThen (pauseUploadQueue X s0) (\<lambda>s1.
           let s2 = emit (QueueBuild (targetAccountId s1) (name (projectConfig s1))) s1
           in case queueBuildRequest X of
                Some err \<Rightarrow>
                  (let s3 = emit (LoggerDebug err) s2
                   in if isSpecifiedError X err MISSING_PROJECT_PROVISION
                      then stop X (emit (LoggerLog (i18n (i18nKey @ ''.cancelledFromUI'') [])) s3)
                      else Returned
                             (emit (LogApiErrorInstance err (targetAccountId s3)
                                      (name (projectConfig s3))) s3))
              | None \<Rightarrow>
                  (let s3 = emit (PollProjectBuildAndDeploy (targetAccountId s2) (projectConfig s2)
                                    (currentStagedBuildId s2)) s2;
                       s4 = emit (SpinniesSucceed spinniesKey
                                    (i18n (i18nKey @ ''.content.uploadedChanges'')
                                       [(''accountIdentifier'',
                                         uiAccountDescription X (targetAccountId s3))])) s3;
                       s5 = emit (SpinniesRemoveAll (targetCategory ''projectPollStatus'')) s4
                   in andThen (if uploadPermission s5 = always then createNewStagingBuild X s5
                               else Returned s5) (\<lambda>s6.
                        let s7 = uploadQueue_start s6
                        in if hasAnyUnsupportedStandbyChanges s7
                           then Returned (flushStandbyChanges_begin s7)
                           else Returned (updateDevModeStatus ''clean'' s7)))))"

subsection \<open>Watch events\<close>

definition handlePreventedUpload :: "ext \<Rightarrow> changeInfo \<Rightarrow> world \<Rightarrow> world" where
  "handlePreventedUpload X ci s =
     (if uploadPermission s = never
      then emit (SpinniesAdd (Key ''noUploadsAllowed'')
                   (i18n (i18nKey @ ''.content.noUploadsAllowed'') [(''filePath'', remotePath ci)])
                   (Some ''fail''))
             (updateDevModeStatus ''noUploadsAllowed'' s)
      else
        (let s1 = updateDevModeStatus ''manualUploadRequired'' s;
             s2 = (if find (\<lambda>standbyChangeInfo. filePath standbyChangeInfo = filePath ci)
                        (standbyChanges s1) = None
                   then addChangeToStandbyQueue X (ci\<lparr>supported := Some False\<rparr>) s1
                   else s1);
             s3 = emit (SpinniesAdd (Key ''manualUploadRequired'')
                          (i18n (i18nKey @ ''.content.manualUploadRequired'') []) (Some ''fail'')) s2;
             s4 = emit (SpinniesAdd (Key ''manualUploadExplanation1'')
                          (i18n (i18nKey @ ''.content.manualUploadExplanation1'') [])
                          (Some ''non-spinnable'')) s3;
             s5 = emit (SpinniesAdd (Key ''manualUploadExplanation2'')
                          (i18n (i18nKey @ ''.content.manualUploadExplanation2'') [])
                          (Some ''non-spinnable'')) s4
         in emit (SpinniesAdd (Key ''manualUploadPrompt'')
                    (i18n (i18nKey @ ''.content.manualUploadPrompt'') [])
                    (Some ''non-spinnable'')) s5))"

text \<open>
  The callbacks of the watcher call \<^verbatim>\<open>handleWatchEvent\<close> and do not wait for it. In the
  last branch the method returns the promise of the task it adds; the model returns once
  the task is with the queue.
\<close>

definition handleWatchEvent :: "ext \<Rightarrow> string \<Rightarrow> watch_event \<Rightarrow> world \<Rightarrow> result" where
  "handleWatchEvent X path ev s =
     (let ci = \<lparr>event = ev, filePath = path,
                remotePath = path_relative X (projectSourceDir s) path, supported = None\<rparr>
      in if str_includes (filePath ci) ''dist'' then Returned s
         else
           (let (response, s1) = notifyServers X ci s
            in if \<not> uploadRequired response
               then (let s2 = updateDevModeStatus ''supportedChange'' s1;
                         s3 = addChangeToStandbyQueue X (ci\<lparr>supported := Some True\<rparr>) s2
                     in Returned (executeServers X ci response s3))
               else if uploadPermission s1 \<noteq> always
               then Returned (handlePreventedUpload X ci s1)
               else if isPaused (uploadQueue s1)
               then Returned
                      (if find (\<lambda>changeInfo. filePath changeInfo = path) (standbyChanges s1) = None
                       then addChangeToStandbyQueue X (ci\<lparr>supported := Some False\<rparr>) s1
                       else s1)
               else andThen (flushStandbyChanges X s1) (\<lambda>s2.
                      let s3 = (if \<not> isPaused (uploadQueue s2) then debounceQueueBuild s2 else s2)
                      in Returned (uploadQueue_add (SendChangesTask ci) s3))))"

subsection \<open>Keys and timeouts\<close>

record keypress =
  key_name :: string
  ctrl :: bool

text \<open>The listener installed by \<^verbatim>\<open>updateKeypressListeners\<close>.\<close>

definition handleKeypress :: "ext \<Rightarrow> keypress \<Rightarrow> world \<Rightarrow> result" where
  "handleKeypress X key s =
     (if (ctrl key \<and> key_name key = ''c'') \<or> key_name key = ''q'' then stop X s
      else if (key_name key = ''y'' \<or> key_name key = ''n'') \<and> uploadPermission s = manual
              \<and> hasAnyUnsupportedStandbyChanges s
      then
        (let s1 = emit (SpinniesRemove (Key ''manualUploadPrompt''))
                    (emit (SpinniesRemove (Key ''manualUploadExplanation2''))
                       (emit (SpinniesRemove (Key ''manualUploadExplanation1''))
                          (emit (SpinniesRemove (Key ''manualUploadRequired'')) s)))
         in if key_name key = ''y''
            then (let s2 = snd (spinniesAddNull (i18n (i18nKey @ ''.content.manualUploadConfirmed'') [])
                                  (Some ''succeed'') s1);
                      s3 = updateDevModeStatus ''manualUpload'' s2
                  in andThen (createNewStagingBuild X s3) (\<lambda>s4.
                       andThen (flushStandbyChanges X s4) (\<lambda>s5. queueBuild X s5)))
            else if key_name key = ''n''
            then Returned (snd (spinniesAddNull (i18n (i18nKey @ ''.content.manualUploadSkipped'') [])
                                  (Some ''fail'') s1))
            else Returned s1)
      else Returned s)"

text \<open>
  The runtime: time passes, and a pending timeout whose deadline has come runs its callback,
  \<^verbatim>\<open>queueBuild\<close>. \<open>tick\<close> lets \<open>dt\<close> milliseconds pass and then runs the callbacks of the
  timeouts that have become due, in the order they were set (a callback never runs before its
  deadline). \<open>arrivals\<close> is a burst of calls of \<^verbatim>\<open>debounceQueueBuild\<close>: before each call the
  given number of milliseconds passes.
\<close>

definition elapse :: "nat \<Rightarrow> world \<Rightarrow> world" where
  "elapse dt s = s\<lparr>clock := clock s + dt\<rparr>"





subsection \<open>The constructor\<close>

text \<open>
  The argument of the constructor: each of the properties may be missing. The constructor
  reads \<^verbatim>\<open>this.projectConfig.srcDir\<close> and calls \<^verbatim>\<open>path.join\<close> (lines 57 to 60) before it tests
  the three required values (line 68); both raise on a missing value.
\<close>

record options =
  opt_targetAccountId :: "nat option"
  opt_projectConfig :: "project_config option"
  opt_projectDir :: "string option"
  opt_port :: "nat option"
  opt_uploadPermission :: "upload_permission option"
  opt_debug :: "bool option"

datatype constructed =
    Constructed ldm
  | ConstructorExited exit_code "effect list"
  | ConstructorThrew js_error

definition LocalDevManager :: "ext \<Rightarrow> options \<Rightarrow> constructed" where
  "LocalDevManager X opts =
     (case opt_projectConfig opts of
        None \<Rightarrow> ConstructorThrew TypeError
      | Some config \<Rightarrow>
          (case opt_projectDir opts of
             None \<Rightarrow> ConstructorThrew TypeError
           | Some dir \<Rightarrow>
               if \<not> truthy (opt_targetAccountId opts) \<or> opt_projectConfig opts = None \<or> dir = []
               then ConstructorExited ERROR
                      [LoggerLog (i18n (i18nKey @ ''.failedToInitialize'') []), ProcessExit ERROR]
               else Constructed
                      \<lparr>targetAccountId = (case opt_targetAccountId opts of Some a \<Rightarrow> a | None \<Rightarrow> 0),
                       projectConfig = config,
                       projectDir = dir,
                       port = opt_port opts,
                       uploadPermission =
                         (case opt_uploadPermission opts of None \<Rightarrow> always | Some p \<Rightarrow> p),
                       debug = (case opt_debug opts of None \<Rightarrow> False | Some d \<Rightarrow> d),
                       projectSourceDir = path_join X dir (srcDir config),
                       standbyChanges = [],
                       debouncedBuild = None,
                       currentStagedBuildId = None\<rparr>))"

subsection \<open>A concrete session\<close>

text \<open>
  Collaborators that answer without failing, and a started instance of the project
  \<^verbatim>\<open>demo\<close> with nothing in flight; the theorems below are applied to them and to
  variations of them.
\<close>

definition exampleExt :: ext where
  "exampleExt =
     \<lparr>path_join = (\<lambda>a b. a @ ''/'' @ b),
      path_relative = (\<lambda>from to. drop (Suc (length from)) to),
      uiAccountDescription = (\<lambda>accountId. ''demo account''),
      isAllowedExtension = (\<lambda>p exts. True),
      shouldIgnoreFile = (\<lambda>p ignoreDefaults. False),
      isSpecifiedError = (\<lambda>err t. False),
      notify = (\<lambda>ci. Inr \<lparr>uploadRequired = True\<rparr>),
      execute = (\<lambda>ci response. None),
      cleanup = None,
      cancelStagedBuild = None,
      uploadFileToBuild = (\<lambda>p r. None),
      deleteFileFromBuild = (\<lambda>r. None),
      provisionBuild = Inr 8,
      queueBuildRequest = None\<rparr>"

definition exampleWorld :: world where
  "exampleWorld =
     \<lparr>targetAccountId = 123,
      projectConfig = \<lparr>name = ''demo'', srcDir = ''src''\<rparr>,
      projectDir = ''/p'',
      port = None,
      uploadPermission = always,
      debug = False,
      projectSourceDir = ''/p/src'',
      standbyChanges = [],
      debouncedBuild = None,
      currentStagedBuildId = Some 7,
      uploadQueue = \<lparr>isPaused = False, waiting = [], pending = []\<rparr>,
      effects = [],
      timers = [],
      clock = 0,
      nextTimeout = 0,
      nextSpinniesKey = 0\<rparr>"

definition exampleChange :: "string \<Rightarrow> changeInfo" where
  "exampleChange p = \<lparr>event = change, filePath = ''/p/src/'' @ p, remotePath = p, supported = None\<rparr>"

text \<open>
  The session after one change to \<^verbatim>\<open>a.jsx\<close>: the upload is in flight and the debounce runs.
\<close>

definition uploadingWorld :: world where
  "uploadingWorld =
     exampleWorld
       \<lparr>debouncedBuild := Some (Timeout 0),
        uploadQueue := \<lparr>isPaused = False, waiting = [],
                         pending = [(exampleChange ''a.jsx'', Generated 0)]\<rparr>,
        effects :=
          [DevServerNotify (exampleChange ''a.jsx''),
           SpinniesUpdate (Key ''devModeStatus'')
             (i18n ''cli.lib.LocalDevManager.header.status.uploadPending'' []) (Some ''non-spinnable''),
           SetTimeout (Timeout 0) 3500,
           UploadQueueAdd (SendChangesTask (exampleChange ''a.jsx'')),
           SpinniesAdd (Generated 0)
             (i18n ''cli.lib.LocalDevManager.content.uploadingChange'' [(''filePath'', ''a.jsx'')])
             (Some ''non-spinnable''),
           UploadFileToBuild 123 ''demo'' ''/p/src/a.jsx'' ''a.jsx''],
        timers := [(Timeout 0, 3500)],
        nextTimeout := 1,
        nextSpinniesKey := 1\<rparr>"

text \<open>
  A session under the manual permission with one change waiting in the standby list, and
  the same session a moment later: the flush has handed the change to the queue, its upload
  is in flight, and a watch event for \<^verbatim>\<open>b.jsx\<close> has been handled in the meantime.
\<close>

definition manualWorld :: world where
  "manualWorld =
     exampleWorld\<lparr>uploadPermission := manual,
                   standbyChanges := [(exampleChange ''a.jsx'')\<lparr>supported := Some False\<rparr>]\<rparr>"

definition lateWorld :: world where
  "lateWorld =
     manualWorld
       \<lparr>standbyChanges := [(exampleChange ''a.jsx'')\<lparr>supported := Some False\<rparr>,
                           (exampleChange ''b.jsx'')\<lparr>supported := Some False\<rparr>],
        uploadQueue := \<lparr>isPaused = False, waiting = [],
                         pending = [((exampleChange ''a.jsx'')\<lparr>supported := Some False\<rparr>, Generated 0)]\<rparr>,
        effects :=
          [UploadQueueAdd (FlushTask ((exampleChange ''a.jsx'')\<lparr>supported := Some False\<rparr>)),
           SpinniesAdd (Generated 0)
             (i18n ''cli.lib.LocalDevManager.content.uploadingChange'' [(''filePath'', ''a.jsx'')])
             (Some ''non-spinnable''),
           UploadFileToBuild 123 ''demo'' ''/p/src/a.jsx'' ''a.jsx'',
           DevServerNotify (exampleChange ''b.jsx''),
           SpinniesUpdate (Key ''devModeStatus'')
             (i18n ''cli.lib.LocalDevManager.header.status.manualUploadRequired'' [])
             (Some ''non-spinnable''),
           SpinniesAdd (Key ''manualUploadRequired'')
             (i18n ''cli.lib.LocalDevManager.content.manualUploadRequired'' []) (Some ''fail''),
           SpinniesAdd (Key ''manualUploadExplanation1'')
             (i18n ''cli.lib.LocalDevManager.content.manualUploadExplanation1'' [])
             (Some ''non-spinnable''),
           SpinniesAdd (Key ''manualUploadExplanation2'')
             (i18n ''cli.lib.LocalDevManager.content.manualUploadExplanation2'' [])
             (Some ''non-spinnable''),
           SpinniesAdd (Key ''manualUploadPrompt'')
             (i18n ''cli.lib.LocalDevManager.content.manualUploadPrompt'' [])
             (Some ''non-spinnable'')],
        nextSpinniesKey := 1\<rparr>"

section \<open>Properties\<close>

subsection \<open>Reading the calls\<close>

definition isUploadCall :: "effect \<Rightarrow> bool" where
  "isUploadCall e =
     (case e of UploadFileToBuild a n p r \<Rightarrow> True | DeleteFileFromBuild a n r \<Rightarrow> True | _ \<Rightarrow> False)"

definition isCancelCall :: "effect \<Rightarrow> bool" where
  "isCancelCall e = (case e of CancelStagedBuild a n \<Rightarrow> True | _ \<Rightarrow> False)"

definition isQueueBuildCall :: "effect \<Rightarrow> bool" where
  "isQueueBuildCall e = (case e of QueueBuild a n \<Rightarrow> True | _ \<Rightarrow> False)"

text \<open>
  \<open>adds P s s'\<close>: the calls of \<open>s'\<close> are those of \<open>s\<close> followed by calls that all satisfy
  \<open>P\<close>. \<open>taskEffect\<close> are the calls the upload queue and its tasks can make, \<open>settleEffect\<close>
  those of an upload that ends.
\<close>

definition adds :: "(effect \<Rightarrow> bool) \<Rightarrow> world \<Rightarrow> world \<Rightarrow> bool" where
  "adds P s s' = (\<exists>es. effects s' = effects s @ es \<and> list_all P es)"

definition taskEffect :: "effect \<Rightarrow> bool" where
  "taskEffect e =
     (case e of
        SpinniesAdd k t st \<Rightarrow> True
      | SpinniesUpdate k t st \<Rightarrow> True
      | UploadFileToBuild a n p r \<Rightarrow> True
      | DeleteFileFromBuild a n r \<Rightarrow> True
      | LoggerDebug err \<Rightarrow> True
      | SetTimeout h d \<Rightarrow> True
      | ClearTimeout h \<Rightarrow> True
      | UploadQueueAdd t \<Rightarrow> True
      | _ \<Rightarrow> False)"

definition settleEffect :: "effect \<Rightarrow> bool" where
  "settleEffect e =
     (case e of SpinniesUpdate k t st \<Rightarrow> True | LoggerDebug err \<Rightarrow> True | _ \<Rightarrow> False)"

definition notQueueBuild :: "effect \<Rightarrow> bool" where
  "notQueueBuild e = (\<not> isQueueBuildCall e)"

text \<open>The calls with which \<^verbatim>\<open>sendChanges\<close> ends once its remote call has settled.\<close>

definition settleCalls :: "ext \<Rightarrow> changeInfo \<times> skey \<Rightarrow> effect list" where
  "settleCalls X p =
     (case (if event (fst p) = add \<or> event (fst p) = change
            then uploadFileToBuild X (filePath (fst p)) (remotePath (fst p))
            else deleteFileFromBuild X (remotePath (fst p))) of
        Some err \<Rightarrow> [LoggerDebug err] | None \<Rightarrow> []) @
     [SpinniesUpdate (snd p)
        (i18n ''cli.lib.LocalDevManager.upload.uploadedChange'' [(''filePath'', remotePath (fst p))])
        (Some ''non-spinnable'')]"

text \<open>
  The tasks handed to the upload queue, in the order of the calls. \<open>quiet s s'\<close>: from \<open>s\<close> to
  \<open>s'\<close> no task was handed to the queue and the standby list was left alone.
\<close>

definition addedTasks :: "effect list \<Rightarrow> task list" where
  "addedTasks es = concat (map (\<lambda>e. case e of UploadQueueAdd t \<Rightarrow> [t] | _ \<Rightarrow> []) es)"

definition quiet :: "world \<Rightarrow> world \<Rightarrow> bool" where
  "quiet s s' =
     (addedTasks (effects s') = addedTasks (effects s) \<and>
      standbyChanges s' = standbyChanges s \<and>
      uploadPermission s' = uploadPermission s \<and>
      projectSourceDir s' = projectSourceDir s)"

subsection \<open>What each step leaves alone\<close>

lemma emit_simps [simp]:
  "effects (emit e s) = effects s @ [e]"
  "timers (emit e s) = timers s"
  "clock (emit e s) = clock s"
  "nextTimeout (emit e s) = nextTimeout s"
  "nextSpinniesKey (emit e s) = nextSpinniesKey s"
  "targetAccountId (emit e s) = targetAccountId s"
  "projectConfig (emit e s) = projectConfig s"
  "projectDir (emit e s) = projectDir s"
  "port (emit e s) = port s"
  "uploadPermission (emit e s) = uploadPermission s"
  "debug (emit e s) = debug s"
  "projectSourceDir (emit e s) = projectSourceDir s"
  "standbyChanges (emit e s) = standbyChanges s"
  "debouncedBuild (emit e s) = debouncedBuild s"
  "currentStagedBuildId (emit e s) = currentStagedBuildId s"
  by (simp_all add: emit_def)

lemma updateDevModeStatus_emit:
  "updateDevModeStatus langKey s =
     emit (SpinniesUpdate (Key ''devModeStatus'')
             (i18n (''cli.lib.LocalDevManager.header.status.'' @ langKey) [])
             (Some ''non-spinnable'')) s"
  by (simp add: updateDevModeStatus_def i18nKey_def)

lemma spinniesAddNull_simps [simp]:
  "fst (spinniesAddNull t st s) = Generated (nextSpinniesKey s)"
  "effects (snd (spinniesAddNull t st s)) = effects s @ [SpinniesAdd (Generated (nextSpinniesKey s)) t st]"
  "nextSpinniesKey (snd (spinniesAddNull t st s)) = Suc (nextSpinniesKey s)"
  "timers (snd (spinniesAddNull t st s)) = timers s"
  "clock (snd (spinniesAddNull t st s)) = clock s"
  "nextTimeout (snd (spinniesAddNull t st s)) = nextTimeout s"
  "targetAccountId (snd (spinniesAddNull t st s)) = targetAccountId s"
  "projectConfig (snd (spinniesAddNull t st s)) = projectConfig s"
  "uploadPermission (snd (spinniesAddNull t st s)) = uploadPermission s"
  "debug (snd (spinniesAddNull t st s)) = debug s"
  "projectSourceDir (snd (spinniesAddNull t st s)) = projectSourceDir s"
  "standbyChanges (snd (spinniesAddNull t st s)) = standbyChanges s"
  "debouncedBuild (snd (spinniesAddNull t st s)) = debouncedBuild s"
  "currentStagedBuildId (snd (spinniesAddNull t st s)) = currentStagedBuildId s"
  by (simp_all add: spinniesAddNull_def Let_def)

lemma andThen_simps [simp]:
  "andThen (Returned s) f = f s"
  "andThen (Exited c s) f = Exited c s"
  "andThen (Threw e s) f = Threw e s"
  "andThen (Blocked s) f = Blocked s"
  by (simp_all add: andThen_def)

lemma final_simps [simp]:
  "final (Returned s) = s"
  "final (Exited c s) = s"
  "final (Threw e s) = s"
  "final (Blocked s) = s"
  by (simp_all add: final_def)

lemma notifyServers_cases:
  "notifyServers X ci s =
     (case notify X ci of
        Inr response \<Rightarrow> (response, emit (DevServerNotify ci) s)
      | Inl e \<Rightarrow> (\<lparr>uploadRequired = True\<rparr>,
           emit (SpinniesAdd (Key ''devServerNotifyError'')
                   (i18n ''cli.lib.LocalDevManager.content.devServerNotifyError'' [])
                   (Some ''non-spinnable''))
             (if debug s then emit (LoggerError e) (emit (DevServerNotify ci) s)
              else emit (DevServerNotify ci) s)))"
  by (simp add: notifyServers_def Let_def i18nKey_def split: sum.splits)

lemma notifyServers_frame [simp]:
  "uploadQueue (snd (notifyServers X ci s)) = uploadQueue s"
  "timers (snd (notifyServers X ci s)) = timers s"
  "clock (snd (notifyServers X ci s)) = clock s"
  "nextTimeout (snd (notifyServers X ci s)) = nextTimeout s"
  "debouncedBuild (snd (notifyServers X ci s)) = debouncedBuild s"
  "standbyChanges (snd (notifyServers X ci s)) = standbyChanges s"
  "uploadPermission (snd (notifyServers X ci s)) = uploadPermission s"
  "filter isUploadCall (effects (snd (notifyServers X ci s))) = filter isUploadCall (effects s)"
  by (simp_all add: notifyServers_cases isUploadCall_def split: sum.splits)

lemma handlePreventedUpload_never:
  "uploadPermission s = never \<Longrightarrow>
     handlePreventedUpload X ci s =
       emit (SpinniesAdd (Key ''noUploadsAllowed'')
               (i18n ''cli.lib.LocalDevManager.content.noUploadsAllowed'' [(''filePath'', remotePath ci)])
               (Some ''fail''))
         (emit (SpinniesUpdate (Key ''devModeStatus'')
                  (i18n ''cli.lib.LocalDevManager.header.status.noUploadsAllowed'' [])
                  (Some ''non-spinnable'')) s)"
  by (simp add: handlePreventedUpload_def updateDevModeStatus_emit i18nKey_def)

lemma addChangeToStandbyQueue_frame [simp]:
  "uploadQueue (addChangeToStandbyQueue X ci s) = uploadQueue s"
  "timers (addChangeToStandbyQueue X ci s) = timers s"
  "filter isUploadCall (effects (addChangeToStandbyQueue X ci s)) = filter isUploadCall (effects s)"
  by (simp_all add: addChangeToStandbyQueue_def isUploadCall_def)

lemma executeServers_frame [simp]:
  "uploadQueue (executeServers X ci r s) = uploadQueue s"
  "timers (executeServers X ci r s) = timers s"
  "filter isUploadCall (effects (executeServers X ci r s)) = filter isUploadCall (effects s)"
  by (simp_all add: executeServers_def Let_def isUploadCall_def split: option.splits)

subsection \<open>Watch events that are ignored or not uploaded\<close>

text \<open>
  Claim C10. For every watch event whose absolute file path contains the substring
  \<^verbatim>\<open>dist\<close>, \<^verbatim>\<open>handleWatchEvent\<close> returns at once and nothing has changed: the dev server is
  not notified, the standby list and the upload queue are as before, no timeout is set, and
  the status is not touched (the method returns the world it was given).
\<close>

theorem handleWatchEvent_dist_ignored:
  "str_includes path ''dist'' \<Longrightarrow> handleWatchEvent X path ev s = Returned s"
  by (simp add: handleWatchEvent_def)

theorem handleWatchEvent_dist_ignored_witness:
  "str_includes ''/p/src/dist/app.js'' ''dist'' \<and>
   handleWatchEvent exampleExt ''/p/src/dist/app.js'' change exampleWorld = Returned exampleWorld"
proof -
  have d: "str_includes ''/p/src/dist/app.js'' ''dist''" by simp
  from handleWatchEvent_dist_ignored [OF d] d show ?thesis by blast
qed

text \<open>
  Claim C9. \<^verbatim>\<open>addChangeToStandbyQueue\<close> appends the change at the end of the standby list
  exactly when it passes both filters: the event is a removal (\<^verbatim>\<open>unlink\<close>, \<^verbatim>\<open>unlinkDir\<close>),
  which is not asked for its extension, or the extension of the file is allowed; and the
  path does not match the ignore rules. Otherwise the list stays as it is.
\<close>

theorem addChangeToStandbyQueue_filtered:
  "standbyChanges (addChangeToStandbyQueue X ci s) =
     (if (event ci = unlink \<or> event ci = unlinkDir \<or> isAllowedExtension X (filePath ci) [''jsx''])
         \<and> \<not> shouldIgnoreFile X (filePath ci) True
      then standbyChanges s @ [ci]
      else standbyChanges s)"
  by (cases "event ci") (simp_all add: addChangeToStandbyQueue_def)

theorem addChangeToStandbyQueue_filtered_witness:
  "standbyChanges (addChangeToStandbyQueue (exampleExt\<lparr>isAllowedExtension := \<lambda>p exts. False\<rparr>)
      (exampleChange ''app.css'') exampleWorld) = [] \<and>
   standbyChanges (addChangeToStandbyQueue (exampleExt\<lparr>isAllowedExtension := \<lambda>p exts. False\<rparr>)
      ((exampleChange ''app.css'')\<lparr>event := unlink\<rparr>) exampleWorld)
     = [(exampleChange ''app.css'')\<lparr>event := unlink\<rparr>] \<and>
   standbyChanges (addChangeToStandbyQueue (exampleExt\<lparr>shouldIgnoreFile := \<lambda>p d. True\<rparr>)
      ((exampleChange ''app.css'')\<lparr>event := unlink\<rparr>) exampleWorld) = [] \<and>
   standbyChanges (addChangeToStandbyQueue exampleExt (exampleChange ''App.jsx'') exampleWorld)
     = [exampleChange ''App.jsx'']"
  using addChangeToStandbyQueue_filtered [of "exampleExt\<lparr>isAllowedExtension := \<lambda>p exts. False\<rparr>"
          "exampleChange ''app.css''" exampleWorld]
        addChangeToStandbyQueue_filtered [of "exampleExt\<lparr>isAllowedExtension := \<lambda>p exts. False\<rparr>"
          "(exampleChange ''app.css'')\<lparr>event := unlink\<rparr>" exampleWorld]
        addChangeToStandbyQueue_filtered [of "exampleExt\<lparr>shouldIgnoreFile := \<lambda>p d. True\<rparr>"
          "(exampleChange ''app.css'')\<lparr>event := unlink\<rparr>" exampleWorld]
        addChangeToStandbyQueue_filtered [of exampleExt "exampleChange ''App.jsx''" exampleWorld]
  by (simp add: exampleExt_def exampleChange_def exampleWorld_def)

text \<open>
  Claim C4. If the call \<^verbatim>\<open>DevServerManager.notify\<close> rejects, \<^verbatim>\<open>notifyServers\<close> does not fail:
  it returns the classification \<^verbatim>\<open>{ uploadRequired: true }\<close>, and all it adds to the calls
  made is the one to the dev server, the error on the logger in debug mode, and a spinner
  \<^verbatim>\<open>devServerNotifyError\<close> that does not spin. \<^verbatim>\<open>handleWatchEvent\<close> then takes the path of a change
  that must be uploaded: it does not run the dev server on the change, and goes on by the
  upload permission.
\<close>

theorem notifyServers_failure_requires_upload:
  assumes "notify X ci = Inl e"
  shows "notifyServers X ci s =
       (\<lparr>uploadRequired = True\<rparr>,
        s\<lparr>effects := effects s @ DevServerNotify ci # (if debug s then [LoggerError e] else []) @
             [SpinniesAdd (Key ''devServerNotifyError'')
                (i18n ''cli.lib.LocalDevManager.content.devServerNotifyError'' [])
                (Some ''non-spinnable'')]\<rparr>) \<and>
     (ci = \<lparr>event = ev, filePath = path, remotePath = path_relative X (projectSourceDir s) path,
            supported = None\<rparr> \<and> \<not> str_includes path ''dist'' \<longrightarrow>
      handleWatchEvent X path ev s =
        (let s1 = snd (notifyServers X ci s)
         in if uploadPermission s \<noteq> always then Returned (handlePreventedUpload X ci s1)
            else if isPaused (uploadQueue s)
            then Returned
                   (if find (\<lambda>c. filePath c = path) (standbyChanges s) = None
                    then addChangeToStandbyQueue X (ci\<lparr>supported := Some False\<rparr>) s1 else s1)
            else andThen (flushStandbyChanges X s1) (\<lambda>s2.
                   Returned (uploadQueue_add (SendChangesTask ci)
                     (if \<not> isPaused (uploadQueue s2) then debounceQueueBuild s2 else s2)))))"
proof -
  have n: "notifyServers X ci s =
       (\<lparr>uploadRequired = True\<rparr>,
        s\<lparr>effects := effects s @ DevServerNotify ci # (if debug s then [LoggerError e] else []) @
             [SpinniesAdd (Key ''devServerNotifyError'')
                (i18n ''cli.lib.LocalDevManager.content.devServerNotifyError'' [])
                (Some ''non-spinnable'')]\<rparr>)"
    using assms by (simp add: notifyServers_def emit_def i18nKey_def)
  have u: "uploadRequired (fst (notifyServers X ci s))"
    by (simp add: n)
  show ?thesis
  proof (intro conjI impI)
    show "notifyServers X ci s =
       (\<lparr>uploadRequired = True\<rparr>,
        s\<lparr>effects := effects s @ DevServerNotify ci # (if debug s then [LoggerError e] else []) @
             [SpinniesAdd (Key ''devServerNotifyError'')
                (i18n ''cli.lib.LocalDevManager.content.devServerNotifyError'' [])
                (Some ''non-spinnable'')]\<rparr>)"
      by (rule n)
  next
    assume a: "ci = \<lparr>event = ev, filePath = path,
        remotePath = path_relative X (projectSourceDir s) path, supported = None\<rparr>
        \<and> \<not> str_includes path ''dist''"
    then have d: "\<not> str_includes path ''dist''" and c: "\<lparr>event = ev, filePath = path,
        remotePath = path_relative X (projectSourceDir s) path, supported = None\<rparr> = ci"
      by simp_all
    from a have fp: "filePath ci = path" by simp
    show "handleWatchEvent X path ev s =
        (let s1 = snd (notifyServers X ci s)
         in if uploadPermission s \<noteq> always then Returned (handlePreventedUpload X ci s1)
            else if isPaused (uploadQueue s)
            then Returned
                   (if find (\<lambda>c. filePath c = path) (standbyChanges s) = None
                    then addChangeToStandbyQueue X (ci\<lparr>supported := Some False\<rparr>) s1 else s1)
            else andThen (flushStandbyChanges X s1) (\<lambda>s2.
                   Returned (uploadQueue_add (SendChangesTask ci)
                     (if \<not> isPaused (uploadQueue s2) then debounceQueueBuild s2 else s2))))"
      unfolding handleWatchEvent_def Let_def c split_beta
      using d u by (simp add: fp)
  qed
qed

theorem notifyServers_failure_requires_upload_witness:
  "notify (exampleExt\<lparr>notify := \<lambda>ci. Inl (Error ''ECONNREFUSED'')\<rparr>) (exampleChange ''app.js'')
     = Inl (Error ''ECONNREFUSED'') \<and>
   \<not> str_includes ''/p/src/app.js'' ''dist'' \<and>
   fst (notifyServers (exampleExt\<lparr>notify := \<lambda>ci. Inl (Error ''ECONNREFUSED'')\<rparr>)
          (exampleChange ''app.js'') (exampleWorld\<lparr>uploadPermission := never\<rparr>))
     = \<lparr>uploadRequired = True\<rparr> \<and>
   effects (snd (notifyServers (exampleExt\<lparr>notify := \<lambda>ci. Inl (Error ''ECONNREFUSED'')\<rparr>)
          (exampleChange ''app.js'') (exampleWorld\<lparr>uploadPermission := never\<rparr>)))
     = [DevServerNotify (exampleChange ''app.js''),
        SpinniesAdd (Key ''devServerNotifyError'')
          (i18n ''cli.lib.LocalDevManager.content.devServerNotifyError'' []) (Some ''non-spinnable'')] \<and>
   handleWatchEvent (exampleExt\<lparr>notify := \<lambda>ci. Inl (Error ''ECONNREFUSED'')\<rparr>) ''/p/src/app.js''
       change (exampleWorld\<lparr>uploadPermission := never\<rparr>)
     = Returned (handlePreventedUpload (exampleExt\<lparr>notify := \<lambda>ci. Inl (Error ''ECONNREFUSED'')\<rparr>)
         (exampleChange ''app.js'')
         (snd (notifyServers (exampleExt\<lparr>notify := \<lambda>ci. Inl (Error ''ECONNREFUSED'')\<rparr>)
            (exampleChange ''app.js'') (exampleWorld\<lparr>uploadPermission := never\<rparr>))))"
proof -
  let ?X = "exampleExt\<lparr>notify := \<lambda>ci. Inl (Error ''ECONNREFUSED'')\<rparr>"
  let ?s = "exampleWorld\<lparr>uploadPermission := never\<rparr>"
  have f: "notify ?X (exampleChange ''app.js'') = Inl (Error ''ECONNREFUSED'')" by simp
  have d: "\<not> str_includes ''/p/src/app.js'' ''dist''" by simp
  have c: "exampleChange ''app.js'' = \<lparr>event = change, filePath = ''/p/src/app.js'',
      remotePath = path_relative ?X (projectSourceDir ?s) ''/p/src/app.js'', supported = None\<rparr>"
    by (simp add: exampleChange_def exampleExt_def exampleWorld_def)
  have e: "effects ?s = []" "\<not> debug ?s" "uploadPermission ?s \<noteq> always"
    by (simp_all add: exampleWorld_def)
  from notifyServers_failure_requires_upload [OF f, of ?s change "''/p/src/app.js''"] c d e f
  show ?thesis by (simp add: Let_def)
qed

text \<open>
  Claim C5. Under the upload permission \<^verbatim>\<open>never\<close>, \<^verbatim>\<open>handleWatchEvent\<close> returns for every
  event without a call to \<^verbatim>\<open>uploadFileToBuild\<close> or \<^verbatim>\<open>deleteFileFromBuild\<close>, without a task
  for the upload queue and without a timeout. If the event is processed (its path passes the
  \<^verbatim>\<open>dist\<close> test) and is classified as needing an upload, the method sets the status
  \<^verbatim>\<open>noUploadsAllowed\<close> and adds the spinner \<^verbatim>\<open>noUploadsAllowed\<close>, and that is all it does after
  the classification.
\<close>

theorem never_uploads_nothing:
  assumes "uploadPermission s = never"
  shows "\<exists>s'. handleWatchEvent X path ev s = Returned s' \<and>
      uploadQueue s' = uploadQueue s \<and> timers s' = timers s \<and>
      filter isUploadCall (effects s') = filter isUploadCall (effects s) \<and>
      (\<not> str_includes path ''dist'' \<and>
       uploadRequired (fst (notifyServers X
          \<lparr>event = ev, filePath = path, remotePath = path_relative X (projectSourceDir s) path,
           supported = None\<rparr> s)) \<longrightarrow>
         standbyChanges s' = standbyChanges s \<and>
         effects s' =
           effects (snd (notifyServers X
             \<lparr>event = ev, filePath = path, remotePath = path_relative X (projectSourceDir s) path,
              supported = None\<rparr> s)) @
           [SpinniesUpdate (Key ''devModeStatus'')
              (i18n ''cli.lib.LocalDevManager.header.status.noUploadsAllowed'' [])
              (Some ''non-spinnable''),
            SpinniesAdd (Key ''noUploadsAllowed'')
              (i18n ''cli.lib.LocalDevManager.content.noUploadsAllowed''
                 [(''filePath'', path_relative X (projectSourceDir s) path)])
              (Some ''fail'')])"
proof -
  define ci where "ci = \<lparr>event = ev, filePath = path,
     remotePath = path_relative X (projectSourceDir s) path, supported = None\<rparr>"
  define s1 where "s1 = snd (notifyServers X ci s)"
  have p1: "uploadPermission s1 = never" by (simp add: s1_def assms)
  show ?thesis
  proof (cases "str_includes path ''dist''")
    case True
    then show ?thesis by (simp add: handleWatchEvent_def)
  next
    case False
    show ?thesis
    proof (cases "uploadRequired (fst (notifyServers X ci s))")
      case True
      with False have "handleWatchEvent X path ev s = Returned (handlePreventedUpload X ci s1)"
        by (simp add: handleWatchEvent_def Let_def split_beta p1 [unfolded s1_def ci_def] ci_def s1_def assms)
      then show ?thesis
        using assms by (simp add: handlePreventedUpload_never isUploadCall_def s1_def ci_def)
    next
      case req: False
      with False have "handleWatchEvent X path ev s =
         Returned (executeServers X ci (fst (notifyServers X ci s))
           (addChangeToStandbyQueue X (ci\<lparr>supported := Some True\<rparr>)
              (updateDevModeStatus ''supportedChange'' s1)))"
        by (simp add: handleWatchEvent_def Let_def split_beta ci_def s1_def)
      with req show ?thesis
        by (simp add: updateDevModeStatus_emit isUploadCall_def s1_def ci_def)
    qed
  qed
qed

theorem never_uploads_nothing_witness:
  "uploadPermission (exampleWorld\<lparr>uploadPermission := never\<rparr>) = never \<and>
   \<not> str_includes ''/p/src/app.js'' ''dist'' \<and>
   (\<exists>s'. handleWatchEvent exampleExt ''/p/src/app.js'' change
            (exampleWorld\<lparr>uploadPermission := never\<rparr>) = Returned s' \<and>
         filter isUploadCall (effects s') = [] \<and>
         uploadQueue s' = \<lparr>isPaused = False, waiting = [], pending = []\<rparr> \<and>
         effects s' =
           [DevServerNotify \<lparr>event = change, filePath = ''/p/src/app.js'', remotePath = ''app.js'',
                             supported = None\<rparr>,
            SpinniesUpdate (Key ''devModeStatus'')
              (i18n ''cli.lib.LocalDevManager.header.status.noUploadsAllowed'' [])
              (Some ''non-spinnable''),
            SpinniesAdd (Key ''noUploadsAllowed'')
              (i18n ''cli.lib.LocalDevManager.content.noUploadsAllowed'' [(''filePath'', ''app.js'')])
              (Some ''fail'')])"
proof -
  let ?s = "exampleWorld\<lparr>uploadPermission := never\<rparr>"
  have p: "uploadPermission ?s = never" by simp
  have d: "\<not> str_includes ''/p/src/app.js'' ''dist''" by simp
  have n: "notifyServers exampleExt
             \<lparr>event = change, filePath = ''/p/src/app.js'', remotePath = ''app.js'', supported = None\<rparr> ?s
           = (\<lparr>uploadRequired = True\<rparr>,
              emit (DevServerNotify \<lparr>event = change, filePath = ''/p/src/app.js'',
                      remotePath = ''app.js'', supported = None\<rparr>) ?s)"
    by (simp add: notifyServers_cases exampleExt_def)
  have r: "path_relative exampleExt (projectSourceDir ?s) ''/p/src/app.js'' = ''app.js''"
    by (simp add: exampleExt_def exampleWorld_def)
  have e: "effects ?s = []" "uploadQueue ?s = \<lparr>isPaused = False, waiting = [], pending = []\<rparr>"
    by (simp_all add: exampleWorld_def)
  from never_uploads_nothing [OF p, of exampleExt "''/p/src/app.js''" change] d
  show ?thesis
    unfolding r n by (auto simp: e isUploadCall_def)
qed

subsection \<open>Shutdown\<close>

text \<open>
  Claim C7. \<^verbatim>\<open>stop\<close> always ends in \<^verbatim>\<open>process.exit\<close>. It calls \<^verbatim>\<open>cancelStagedBuild\<close> not at all
  when \<^verbatim>\<open>currentStagedBuildId\<close> is falsy and exactly once when a build is staged. The exit code
  is \<^verbatim>\<open>ERROR\<close> only if that one call fails with an error that is not
  \<^verbatim>\<open>BUILD_NOT_IN_PROGRESS\<close>; in every other case, also when the call fails with
  \<^verbatim>\<open>BUILD_NOT_IN_PROGRESS\<close>, it is \<^verbatim>\<open>SUCCESS\<close>.
\<close>

theorem stop_cancels_staged_build:
  "\<exists>code s'. stop X s = Exited code s' \<and> last (effects s') = ProcessExit code \<and>
      length (filter isCancelCall (effects s')) =
        length (filter isCancelCall (effects s)) + (if truthy (currentStagedBuildId s) then 1 else 0) \<and>
      code = (if truthy (currentStagedBuildId s) \<and>
                 (\<exists>err. cancelStagedBuild X = Some err \<and> \<not> isSpecifiedError X err BUILD_NOT_IN_PROGRESS)
              then ERROR else SUCCESS)"
proof (cases "truthy (currentStagedBuildId s)")
  case False
  then show ?thesis
    by (cases "cleanup X")
       (simp_all add: stop_def Let_def clearConsoleContent_def stopWatching_def cleanupServers_def
         emit_def isCancelCall_def)
next
  case True
  then show ?thesis
    by (cases "cleanup X"; cases "cancelStagedBuild X")
       (simp_all add: stop_def Let_def clearConsoleContent_def stopWatching_def cleanupServers_def
         emit_def isCancelCall_def)
qed

theorem stop_cancels_staged_build_witness:
  "(\<exists>s'. stop exampleExt (exampleWorld\<lparr>currentStagedBuildId := None\<rparr>) = Exited SUCCESS s' \<and>
      filter isCancelCall (effects s') = []) \<and>
   (\<exists>s'. stop exampleExt exampleWorld = Exited SUCCESS s' \<and>
      length (filter isCancelCall (effects s')) = 1) \<and>
   (\<exists>s'. stop (exampleExt\<lparr>cancelStagedBuild := Some (Error ''BUILD_NOT_IN_PROGRESS''),
                            isSpecifiedError := \<lambda>err t. err = Error ''BUILD_NOT_IN_PROGRESS''
                                                    \<and> t = BUILD_NOT_IN_PROGRESS\<rparr>)
            exampleWorld = Exited SUCCESS s' \<and>
      length (filter isCancelCall (effects s')) = 1) \<and>
   (\<exists>s'. stop (exampleExt\<lparr>cancelStagedBuild := Some (Error ''timeout'')\<rparr>) exampleWorld
            = Exited ERROR s' \<and>
      length (filter isCancelCall (effects s')) = 1 \<and> last (effects s') = ProcessExit ERROR)"
proof -
  have x: "cancelStagedBuild exampleExt = None" "isSpecifiedError exampleExt = (\<lambda>err t. False)"
    by (simp_all add: exampleExt_def)
  have w: "currentStagedBuildId exampleWorld = Some 7" "effects exampleWorld = []"
    by (simp_all add: exampleWorld_def)
  have 1: "\<exists>s'. stop exampleExt (exampleWorld\<lparr>currentStagedBuildId := None\<rparr>) = Exited SUCCESS s' \<and>
      filter isCancelCall (effects s') = []"
    using stop_cancels_staged_build [of exampleExt "exampleWorld\<lparr>currentStagedBuildId := None\<rparr>"]
    by (auto simp: truthy_def x w)
  have 2: "\<exists>s'. stop exampleExt exampleWorld = Exited SUCCESS s' \<and>
      length (filter isCancelCall (effects s')) = 1"
    using stop_cancels_staged_build [of exampleExt exampleWorld]
    by (auto simp: truthy_def x w)
  have 3: "\<exists>s'. stop (exampleExt\<lparr>cancelStagedBuild := Some (Error ''BUILD_NOT_IN_PROGRESS''),
                            isSpecifiedError := \<lambda>err t. err = Error ''BUILD_NOT_IN_PROGRESS''
                                                    \<and> t = BUILD_NOT_IN_PROGRESS\<rparr>)
            exampleWorld = Exited SUCCESS s' \<and>
      length (filter isCancelCall (effects s')) = 1"
    using stop_cancels_staged_build [of "exampleExt\<lparr>cancelStagedBuild := Some (Error ''BUILD_NOT_IN_PROGRESS''),
                            isSpecifiedError := \<lambda>err t. err = Error ''BUILD_NOT_IN_PROGRESS''
                                                    \<and> t = BUILD_NOT_IN_PROGRESS\<rparr>" exampleWorld]
    by (auto simp: truthy_def w)
  have 4: "\<exists>s'. stop (exampleExt\<lparr>cancelStagedBuild := Some (Error ''timeout'')\<rparr>) exampleWorld
            = Exited ERROR s' \<and>
      length (filter isCancelCall (effects s')) = 1 \<and> last (effects s') = ProcessExit ERROR"
    using stop_cancels_staged_build [of "exampleExt\<lparr>cancelStagedBuild := Some (Error ''timeout'')\<rparr>" exampleWorld]
    by (auto simp: truthy_def x w)
  from 1 2 3 4 show ?thesis by blast
qed

subsection \<open>Construction\<close>

text \<open>
  Claim C8 says that the constructor logs a failure and exits with the error code whenever
  \<^verbatim>\<open>targetAccountId\<close>, \<^verbatim>\<open>projectConfig\<close> or \<^verbatim>\<open>projectDir\<close> is missing. The constructor does so
  for a missing \<^verbatim>\<open>targetAccountId\<close> (and for an empty \<^verbatim>\<open>projectDir\<close>). For a missing
  \<^verbatim>\<open>projectConfig\<close> or \<^verbatim>\<open>projectDir\<close> it never reaches its test in line 68: the expression
  \<^verbatim>\<open>path.join(this.projectDir, this.projectConfig.srcDir)\<close> of lines 57 to 60 raises a
  \<^verbatim>\<open>TypeError\<close> first, nothing is logged and \<^verbatim>\<open>process.exit\<close> is not called.
\<close>

theorem LocalDevManager_throws_on_missing_config:
  "opt_projectConfig opts = None \<or> opt_projectDir opts = None \<Longrightarrow>
     LocalDevManager X opts = ConstructorThrew TypeError"
  by (auto simp: LocalDevManager_def split: option.splits)

theorem LocalDevManager_throws_on_missing_config_witness:
  "LocalDevManager exampleExt
     \<lparr>opt_targetAccountId = Some 123, opt_projectConfig = None, opt_projectDir = Some ''/p'',
      opt_port = None, opt_uploadPermission = None, opt_debug = None\<rparr> = ConstructorThrew TypeError \<and>
   LocalDevManager exampleExt
     \<lparr>opt_targetAccountId = Some 123, opt_projectConfig = Some \<lparr>name = ''demo'', srcDir = ''src''\<rparr>,
      opt_projectDir = None, opt_port = None, opt_uploadPermission = None, opt_debug = None\<rparr>
     = ConstructorThrew TypeError"
  using LocalDevManager_throws_on_missing_config [of
      "\<lparr>opt_targetAccountId = Some 123, opt_projectConfig = None, opt_projectDir = Some ''/p'',
        opt_port = None, opt_uploadPermission = None, opt_debug = None\<rparr>" exampleExt]
    LocalDevManager_throws_on_missing_config [of
      "\<lparr>opt_targetAccountId = Some 123, opt_projectConfig = Some \<lparr>name = ''demo'', srcDir = ''src''\<rparr>,
        opt_projectDir = None, opt_port = None, opt_uploadPermission = None, opt_debug = None\<rparr>" exampleExt]
  by simp

lemma LocalDevManager_exits_on_missing_account:
  "opt_projectConfig opts = Some config \<Longrightarrow> opt_projectDir opts = Some dir \<Longrightarrow>
   \<not> truthy (opt_targetAccountId opts) \<Longrightarrow>
     LocalDevManager X opts =
       ConstructorExited ERROR
         [LoggerLog (i18n ''cli.lib.LocalDevManager.failedToInitialize'' []), ProcessExit ERROR]"
  by (simp add: LocalDevManager_def i18nKey_def)

subsection \<open>The calls a step adds\<close>

lemma adds_refl [simp]: "adds P s s"
  by (simp add: adds_def)

lemma adds_trans: "adds P s s1 \<Longrightarrow> adds P s1 s2 \<Longrightarrow> adds P s s2"
  by (auto simp: adds_def)

lemma adds_emit: "P e \<Longrightarrow> adds P s s1 \<Longrightarrow> adds P s (emit e s1)"
  by (auto simp: adds_def)

lemma adds_same: "effects s2 = effects s1 \<Longrightarrow> adds P s s1 \<Longrightarrow> adds P s s2"
  by (auto simp: adds_def)

lemma adds_mono: "adds P s s' \<Longrightarrow> (\<And>e. P e \<Longrightarrow> Q e) \<Longrightarrow> adds Q s s'"
  by (auto simp: adds_def list_all_iff)

lemma adds_debounceQueueBuild: "adds taskEffect s (debounceQueueBuild s)"
  by (simp add: adds_def debounceQueueBuild_def setTimeout_def clearTimeout_def
      updateDevModeStatus_emit taskEffect_def Let_def split: option.splits)

lemma adds_sendChangesCall: "adds taskEffect s (snd (sendChangesCall ci s))"
  by (simp add: adds_def sendChangesCall_def split_beta taskEffect_def)

lemma adds_runTask: "adds taskEffect s (runTask t s)"
proof (cases t)
  case (SendChangesTask ci)
  then show ?thesis
    by (simp add: runTask_def split_beta adds_same [OF _ adds_sendChangesCall])
next
  case (FlushTask ci)
  show ?thesis
  proof (cases "uploadPermission s = always \<and> \<not> isPaused (uploadQueue s)")
    case True
    have "adds taskEffect s (snd (sendChangesCall ci (debounceQueueBuild s)))"
      by (rule adds_trans [OF adds_debounceQueueBuild adds_sendChangesCall])
    then show ?thesis using True FlushTask
      by (simp add: runTask_def split_beta Let_def adds_same)
  next
    case False
    then show ?thesis using FlushTask
      by (auto simp add: runTask_def split_beta Let_def adds_same [OF _ adds_sendChangesCall])
  qed
qed

lemma adds_tryToStartAnother: "tryToStartAnother s = Some s' \<Longrightarrow> adds taskEffect s s'"
proof -
  assume a: "tryToStartAnother s = Some s'"
  then obtain t ts where w: "waiting (uploadQueue s) = t # ts"
    and s': "s' = runTask t (s\<lparr>uploadQueue := (uploadQueue s)\<lparr>waiting := ts\<rparr>\<rparr>)"
    by (auto simp: tryToStartAnother_def split: list.splits if_splits)
  have "adds taskEffect (s\<lparr>uploadQueue := (uploadQueue s)\<lparr>waiting := ts\<rparr>\<rparr>) s'"
    unfolding s' by (rule adds_runTask)
  then show ?thesis by (simp add: adds_def)
qed

lemma adds_processQueue: "adds taskEffect s (processQueue s)"
proof (induction s rule: processQueue.induct)
  case (1 s)
  show ?case
  proof (cases "tryToStartAnother s")
    case None
    then show ?thesis by (simp add: processQueue.simps [of s])
  next
    case (Some s')
    from adds_trans [OF adds_tryToStartAnother [OF Some] "1.IH" [OF Some]]
    show ?thesis by (simp add: processQueue.simps [of s] Some)
  qed
qed

lemma adds_uploadQueue_add: "adds taskEffect s (uploadQueue_add t s)"
proof -
  let ?s2 = "(emit (UploadQueueAdd t) s)\<lparr>uploadQueue :=
      (uploadQueue (emit (UploadQueueAdd t) s))\<lparr>waiting := waiting (uploadQueue (emit (UploadQueueAdd t) s)) @ [t]\<rparr>\<rparr>"
  have a: "adds taskEffect s ?s2"
    by (simp add: adds_def taskEffect_def)
  show ?thesis
  proof (cases "tryToStartAnother ?s2")
    case None
    then show ?thesis using a by (simp add: uploadQueue_add_def Let_def)
  next
    case (Some s3)
    from adds_trans [OF a adds_tryToStartAnother [OF Some]]
    show ?thesis using Some by (simp add: uploadQueue_add_def Let_def)
  qed
qed

lemma adds_uploadQueue_addAll: "adds taskEffect s (uploadQueue_addAll ts s)"
  unfolding uploadQueue_addAll_def
proof (induction ts arbitrary: s)
  case Nil
  then show ?case by simp
next
  case (Cons t ts)
  from adds_trans [OF adds_uploadQueue_add Cons.IH]
  show ?case by simp
qed

lemma adds_sendChangesSettle: "adds settleEffect s (sendChangesSettle X ci k s)"
  by (simp add: adds_def sendChangesSettle_def Let_def settleEffect_def split: option.splits)

lemma settleEffect_taskEffect: "settleEffect e \<Longrightarrow> taskEffect e"
  by (cases e) (simp_all add: settleEffect_def taskEffect_def)

lemma adds_settleOldest: "adds taskEffect s (settleOldest X s)"
proof (cases "pending (uploadQueue s)")
  case Nil
  then show ?thesis by (simp add: settleOldest_def)
next
  case (Cons p rest)
  let ?s1 = "sendChangesSettle X (fst p) (snd p) s"
  let ?s2 = "?s1\<lparr>uploadQueue := (uploadQueue ?s1)\<lparr>pending := rest\<rparr>\<rparr>"
  have a: "adds taskEffect s ?s2"
    by (rule adds_same [OF _ adds_mono [OF adds_sendChangesSettle settleEffect_taskEffect]]) simp
  show ?thesis
  proof (cases "tryToStartAnother ?s2")
    case None
    then show ?thesis using a by (simp add: settleOldest_def Cons Let_def)
  next
    case (Some s3)
    from adds_trans [OF a adds_tryToStartAnother [OF Some]]
    show ?thesis using Some by (simp add: settleOldest_def Cons Let_def)
  qed
qed

lemma adds_settleAll: "adds taskEffect s (settleAll X s)"
proof (induction X s rule: settleAll.induct)
  case (1 X s)
  show ?case
  proof (cases "pending (uploadQueue s) = []")
    case True
    then show ?thesis by (simp add: settleAll.simps [of X s])
  next
    case False
    from adds_trans [OF adds_settleOldest "1.IH" [OF False]]
    show ?thesis using False by (simp add: settleAll.simps [of X s])
  qed
qed

lemma settleAll_pending [simp]: "pending (uploadQueue (settleAll X s)) = []"
proof (induction X s rule: settleAll.induct)
  case (1 X s)
  then show ?case by (cases "pending (uploadQueue s) = []") (simp_all add: settleAll.simps [of X s])
qed

text \<open>With the queue paused nothing starts: settling only finishes the uploads in flight.\<close>

lemma sendChangesSettle_calls:
  "sendChangesSettle X (fst p) (snd p) s = s\<lparr>effects := effects s @ settleCalls X p\<rparr>"
  by (cases "event (fst p)")
     (simp_all add: sendChangesSettle_def settleCalls_def Let_def emit_def i18nKey_def
        split: option.splits)

lemma settleCalls_settleEffect: "list_all settleEffect (settleCalls X p)"
  by (simp add: settleCalls_def settleEffect_def split: option.splits)

lemma pqueue_pending_same: "pending q = ps \<Longrightarrow> q\<lparr>pending := ps\<rparr> = q"
  by (cases q) simp

lemma settleOldest_paused:
  assumes "isPaused (uploadQueue s)"
  shows "settleOldest X s =
           s\<lparr>effects := effects s @ concat (map (settleCalls X) (take 1 (pending (uploadQueue s)))),
              uploadQueue := (uploadQueue s)\<lparr>pending := tl (pending (uploadQueue s))\<rparr>\<rparr>"
proof (cases "pending (uploadQueue s)")
  case Nil
  then show ?thesis
    by (simp add: settleOldest_def pqueue_pending_same)
next
  case (Cons p rest)
  have t: "tryToStartAnother ((sendChangesSettle X (fst p) (snd p) s)\<lparr>uploadQueue :=
      (uploadQueue (sendChangesSettle X (fst p) (snd p) s))\<lparr>pending := rest\<rparr>\<rparr>) = None"
    using assms by (simp add: tryToStartAnother_def split: list.splits)
  show ?thesis
    using t by (simp add: settleOldest_def Cons Let_def) (simp add: sendChangesSettle_calls)
qed

lemma settleAll_paused:
  "isPaused (uploadQueue s) \<Longrightarrow>
     settleAll X s =
       s\<lparr>effects := effects s @ concat (map (settleCalls X) (pending (uploadQueue s))),
          uploadQueue := (uploadQueue s)\<lparr>pending := []\<rparr>\<rparr>"
proof (induction X s rule: settleAll.induct)
  case (1 X s)
  show ?case
  proof (cases "pending (uploadQueue s)")
    case Nil
    then show ?thesis by (simp add: settleAll.simps [of X s] pqueue_pending_same)
  next
    case (Cons p rest)
    have so: "settleOldest X s =
           s\<lparr>effects := effects s @ settleCalls X p,
              uploadQueue := (uploadQueue s)\<lparr>pending := rest\<rparr>\<rparr>"
      using settleOldest_paused [OF "1.prems", of X] by (simp add: Cons)
    have ne: "pending (uploadQueue s) \<noteq> []" by (simp add: Cons)
    have p: "isPaused (uploadQueue (settleOldest X s))"
      using "1.prems" by (simp add: so)
    have "settleAll X s = settleAll X (settleOldest X s)"
      using ne by (simp add: settleAll.simps [of X s])
    also have "\<dots> = (settleOldest X s)\<lparr>effects := effects (settleOldest X s) @
          concat (map (settleCalls X) (pending (uploadQueue (settleOldest X s)))),
          uploadQueue := (uploadQueue (settleOldest X s))\<lparr>pending := []\<rparr>\<rparr>"
      by (rule "1.IH" [OF ne p])
    also have "\<dots> = s\<lparr>effects := effects s @ concat (map (settleCalls X) (pending (uploadQueue s))),
          uploadQueue := (uploadQueue s)\<lparr>pending := []\<rparr>\<rparr>"
      by (simp add: so Cons)
    finally show ?thesis .
  qed
qed

lemma pauseUploadQueue_eq:
  "pauseUploadQueue X s =
     (if waiting (uploadQueue s) = []
      then Returned
             (s\<lparr>effects := effects s @ UploadQueuePause # concat (map (settleCalls X) (pending (uploadQueue s)))
                    @ [UploadQueueOnIdleResolved],
                uploadQueue := \<lparr>isPaused = True, waiting = [], pending = []\<rparr>\<rparr>)
      else Blocked
             (s\<lparr>effects := effects s @ UploadQueuePause # concat (map (settleCalls X) (pending (uploadQueue s))),
                uploadQueue := (uploadQueue s)\<lparr>isPaused := True, pending := []\<rparr>\<rparr>))"
proof -
  have p: "isPaused (uploadQueue (uploadQueue_pause s))"
    by (simp add: uploadQueue_pause_def)
  have q: "(uploadQueue s)\<lparr>isPaused := True, pending := []\<rparr> = \<lparr>isPaused = True, waiting = waiting (uploadQueue s), pending = []\<rparr>"
    by (cases "uploadQueue s") simp
  show ?thesis
    unfolding pauseUploadQueue_def uploadQueue_onIdle_def whenSettled_def settleAll_paused [OF p]
    by (simp add: uploadQueue_pause_def Let_def emit_def q)
qed

lemma taskEffect_notQueueBuild: "taskEffect e \<Longrightarrow> notQueueBuild e"
  by (cases e) (simp_all add: taskEffect_def notQueueBuild_def isQueueBuildCall_def)

lemma adds_stop: "adds notQueueBuild s (final (stop X s))"
  by (cases "cleanup X"; cases "cancelStagedBuild X")
     (simp_all add: adds_def stop_def Let_def clearConsoleContent_def stopWatching_def
        cleanupServers_def notQueueBuild_def isQueueBuildCall_def split_beta)

lemma adds_createNewStagingBuild: "adds notQueueBuild s (final (createNewStagingBuild X s))"
  by (cases "provisionBuild X"; cases "cancelStagedBuild X")
     (simp_all add: adds_def createNewStagingBuild_def Let_def notQueueBuild_def isQueueBuildCall_def)

lemma adds_uploadQueue_start: "adds notQueueBuild s (uploadQueue_start s)"
proof -
  let ?s1 = "emit UploadQueueStart s"
  have a: "adds notQueueBuild s ?s1"
    by (simp add: adds_def notQueueBuild_def isQueueBuildCall_def)
  show ?thesis
  proof (cases "isPaused (uploadQueue s)")
    case False
    then show ?thesis using a by (simp add: uploadQueue_start_def Let_def)
  next
    case True
    let ?s2 = "?s1\<lparr>uploadQueue := (uploadQueue ?s1)\<lparr>isPaused := False\<rparr>\<rparr>"
    have "adds notQueueBuild ?s2 (processQueue ?s2)"
      by (rule adds_mono [OF adds_processQueue taskEffect_notQueueBuild])
    then have "adds notQueueBuild ?s1 (processQueue ?s2)"
      by (simp add: adds_def)
    from adds_trans [OF a this] True show ?thesis
      by (simp add: uploadQueue_start_def Let_def)
  qed
qed

lemma adds_flushStandbyChanges_begin: "adds taskEffect s (flushStandbyChanges_begin s)"
  by (simp add: flushStandbyChanges_begin_def adds_uploadQueue_addAll)

lemma adds_andThen:
  "adds P s (final r) \<Longrightarrow> (\<And>s1. r = Returned s1 \<Longrightarrow> adds P s1 (final (f s1))) \<Longrightarrow>
     adds P s (final (andThen r f))"
  by (cases r) (auto intro: adds_trans)

lemma queueBuild_after_pause:
  assumes "pauseUploadQueue X (snd (spinniesAddNull
             (i18n (i18nKey @ ''.content.uploadingChanges'')
                [(''accountIdentifier'', uiAccountDescription X (targetAccountId s))]) None s))
           = Returned s1"
  shows "adds notQueueBuild (emit (QueueBuild (targetAccountId s1) (name (projectConfig s1))) s1)
           (final (queueBuild X s))"
proof -
  let ?s2 = "emit (QueueBuild (targetAccountId s1) (name (projectConfig s1))) s1"
  show ?thesis
  proof (cases "queueBuildRequest X")
    case (Some err)
    let ?s3 = "emit (LoggerDebug err) ?s2"
    have a3: "adds notQueueBuild ?s2 ?s3"
      by (simp add: adds_def notQueueBuild_def isQueueBuildCall_def)
    show ?thesis
    proof (cases "isSpecifiedError X err MISSING_PROJECT_PROVISION")
      case True
      let ?s4 = "emit (LoggerLog (i18n (i18nKey @ ''.cancelledFromUI'') [])) ?s3"
      have "adds notQueueBuild ?s2 ?s4"
        by (simp add: adds_def notQueueBuild_def isQueueBuildCall_def)
      from adds_trans [OF this adds_stop [of ?s4 X]]
      show ?thesis using assms Some True
        by (simp add: queueBuild_def split_beta Let_def)
    next
      case False
      have "adds notQueueBuild ?s2
              (emit (LogApiErrorInstance err (targetAccountId ?s3) (name (projectConfig ?s3))) ?s3)"
        by (simp add: adds_def notQueueBuild_def isQueueBuildCall_def)
      then show ?thesis using assms Some False
        by (simp add: queueBuild_def split_beta Let_def)
    qed
  next
    case None
    define k where "k = fst (spinniesAddNull
             (i18n (i18nKey @ ''.content.uploadingChanges'')
                [(''accountIdentifier'', uiAccountDescription X (targetAccountId s))]) None s)"
    define s5 where "s5 = emit (SpinniesRemoveAll (targetCategory ''projectPollStatus''))
        (emit (SpinniesSucceed k (i18n (i18nKey @ ''.content.uploadedChanges'')
                 [(''accountIdentifier'', uiAccountDescription X (targetAccountId s1))]))
           (emit (PollProjectBuildAndDeploy (targetAccountId s1) (projectConfig s1)
                    (currentStagedBuildId s1)) ?s2))"
    define tail where "tail = (\<lambda>s6. let s7 = uploadQueue_start s6
                        in if hasAnyUnsupportedStandbyChanges s7
                           then Returned (flushStandbyChanges_begin s7)
                           else Returned (updateDevModeStatus ''clean'' s7))"
    define r where "r = (if uploadPermission s5 = always then createNewStagingBuild X s5
                               else Returned s5)"
    have q: "queueBuild X s = andThen r tail"
      using assms None
      by (simp add: queueBuild_def split_beta Let_def r_def tail_def s5_def k_def)
    have a5: "adds notQueueBuild ?s2 s5"
      by (simp add: s5_def adds_def notQueueBuild_def isQueueBuildCall_def)
    have ar: "adds notQueueBuild s5 (final r)"
      by (simp add: r_def adds_createNewStagingBuild)
    have at: "adds notQueueBuild s6 (final (tail s6))" for s6
    proof -
      have 1: "adds notQueueBuild s6 (uploadQueue_start s6)" by (rule adds_uploadQueue_start)
      have 2: "adds notQueueBuild (uploadQueue_start s6) (flushStandbyChanges_begin (uploadQueue_start s6))"
        by (rule adds_mono [OF adds_flushStandbyChanges_begin taskEffect_notQueueBuild])
      have 3: "adds notQueueBuild (uploadQueue_start s6) (updateDevModeStatus ''clean'' (uploadQueue_start s6))"
        by (simp add: adds_def updateDevModeStatus_emit notQueueBuild_def isQueueBuildCall_def)
      show ?thesis
        using adds_trans [OF 1 2] adds_trans [OF 1 3] by (simp add: tail_def Let_def)
    qed
    have "adds notQueueBuild s5 (final (andThen r tail))"
      by (rule adds_andThen [OF ar at])
    from adds_trans [OF a5 this] show ?thesis by (simp add: q)
  qed
qed

subsection \<open>Queueing a build: drain first\<close>

lemma uploadingWorld_reached:
  "handleWatchEvent exampleExt ''/p/src/a.jsx'' change exampleWorld = Returned uploadingWorld"
  by (simp add: handleWatchEvent_def notifyServers_def flushStandbyChanges_def
      debounceQueueBuild_def setTimeout_def updateDevModeStatus_emit uploadQueue_add_def
      tryToStartAnother_def runTask_def sendChangesCall_def spinniesAddNull_def emit_def
      concurrency_def BUILD_DEBOUNCE_TIME_def i18nKey_def Let_def
      uploadingWorld_def exampleWorld_def exampleExt_def exampleChange_def)

lemma pauseUploadQueue_after_spinner:
  "pauseUploadQueue X (snd (spinniesAddNull t st s)) =
     (if waiting (uploadQueue s) = []
      then Returned
             (s\<lparr>nextSpinniesKey := Suc (nextSpinniesKey s),
                effects := effects s @ [SpinniesAdd (Generated (nextSpinniesKey s)) t st, UploadQueuePause]
                    @ concat (map (settleCalls X) (pending (uploadQueue s)))
                    @ [UploadQueueOnIdleResolved],
                uploadQueue := \<lparr>isPaused = True, waiting = [], pending = []\<rparr>\<rparr>)
      else Blocked
             (s\<lparr>nextSpinniesKey := Suc (nextSpinniesKey s),
                effects := effects s @ [SpinniesAdd (Generated (nextSpinniesKey s)) t st, UploadQueuePause]
                    @ concat (map (settleCalls X) (pending (uploadQueue s))),
                uploadQueue := (uploadQueue s)\<lparr>isPaused := True, pending := []\<rparr>\<rparr>))"
  by (simp add: pauseUploadQueue_eq) (simp add: spinniesAddNull_def Let_def emit_def)

text \<open>
  Claim C1. Whenever \<^verbatim>\<open>queueBuild\<close> runs, from any state (the callback of the debounce
  timeout and the accepted manual upload both end in this call), the calls it adds are, in
  this order: the spinner, \<^verbatim>\<open>uploadQueue.pause()\<close>, the end of each upload that was in flight
  (a debug log on failure and the update of its spinner, nothing else), the resolution of
  \<^verbatim>\<open>uploadQueue.onIdle()\<close>, and only then the remote \<^verbatim>\<open>queueBuild\<close> request, which occurs
  once. When the request is made the queue is paused, with nothing in flight and nothing
  waiting. If tasks are still waiting in the paused queue, \<^verbatim>\<open>onIdle()\<close> does not resolve and
  the request is never made.
\<close>

theorem queueBuild_requests_after_drain:
  "let uploading = SpinniesAdd (Generated (nextSpinniesKey s))
         (i18n ''cli.lib.LocalDevManager.content.uploadingChanges''
            [(''accountIdentifier'', uiAccountDescription X (targetAccountId s))]) None;
       settled = concat (map (settleCalls X) (pending (uploadQueue s)))
   in list_all settleEffect settled \<and>
      (if waiting (uploadQueue s) = []
       then \<exists>s1 rest.
              pauseUploadQueue X (snd (spinniesAddNull
                  (i18n ''cli.lib.LocalDevManager.content.uploadingChanges''
                     [(''accountIdentifier'', uiAccountDescription X (targetAccountId s))]) None s))
                = Returned s1 \<and>
              uploadQueue s1 = \<lparr>isPaused = True, waiting = [], pending = []\<rparr> \<and>
              effects s1 = effects s @ [uploading, UploadQueuePause] @ settled @ [UploadQueueOnIdleResolved] \<and>
              effects (final (queueBuild X s)) =
                effects s1 @ QueueBuild (targetAccountId s) (name (projectConfig s)) # rest \<and>
              list_all notQueueBuild rest
       else \<exists>s'. queueBuild X s = Blocked s' \<and>
              effects s' = effects s @ [uploading, UploadQueuePause] @ settled)"
proof -
  define t where "t = i18n ''cli.lib.LocalDevManager.content.uploadingChanges''
            [(''accountIdentifier'', uiAccountDescription X (targetAccountId s))]"
  have t': "i18n (i18nKey @ ''.content.uploadingChanges'')
                [(''accountIdentifier'', uiAccountDescription X (targetAccountId s))] = t"
    by (simp add: t_def i18nKey_def)
  have settled: "list_all settleEffect (concat (map (settleCalls X) (pending (uploadQueue s))))"
    by (induction "pending (uploadQueue s)") (simp_all add: list_all_iff settleCalls_settleEffect [unfolded list_all_iff])
  show ?thesis
  proof (cases "waiting (uploadQueue s) = []")
    case True
    define s1 where "s1 = s\<lparr>nextSpinniesKey := Suc (nextSpinniesKey s),
                effects := effects s @ [SpinniesAdd (Generated (nextSpinniesKey s)) t None, UploadQueuePause]
                    @ concat (map (settleCalls X) (pending (uploadQueue s)))
                    @ [UploadQueueOnIdleResolved],
                uploadQueue := \<lparr>isPaused = True, waiting = [], pending = []\<rparr>\<rparr>"
    have p: "pauseUploadQueue X (snd (spinniesAddNull t None s)) = Returned s1"
      using True by (simp add: pauseUploadQueue_after_spinner s1_def)
    from queueBuild_after_pause [of X s s1] p
    have "adds notQueueBuild (emit (QueueBuild (targetAccountId s1) (name (projectConfig s1))) s1)
           (final (queueBuild X s))"
      by (simp add: t')
    then obtain rest where
      "effects (final (queueBuild X s)) =
         effects s1 @ QueueBuild (targetAccountId s1) (name (projectConfig s1)) # rest"
      "list_all notQueueBuild rest"
      by (auto simp: adds_def)
    moreover have "targetAccountId s1 = targetAccountId s" "projectConfig s1 = projectConfig s"
      "uploadQueue s1 = \<lparr>isPaused = True, waiting = [], pending = []\<rparr>"
      "effects s1 = effects s @ [SpinniesAdd (Generated (nextSpinniesKey s)) t None, UploadQueuePause]
                    @ concat (map (settleCalls X) (pending (uploadQueue s)))
                    @ [UploadQueueOnIdleResolved]"
      by (simp_all add: s1_def)
    ultimately show ?thesis
      using True p settled unfolding Let_def t_def [symmetric] by auto
  next
    case False
    have "queueBuild X s = Blocked (s\<lparr>nextSpinniesKey := Suc (nextSpinniesKey s),
                effects := effects s @ [SpinniesAdd (Generated (nextSpinniesKey s)) t None, UploadQueuePause]
                    @ concat (map (settleCalls X) (pending (uploadQueue s))),
                uploadQueue := (uploadQueue s)\<lparr>isPaused := True, pending := []\<rparr>\<rparr>)"
      using False by (simp add: queueBuild_def split_beta t' pauseUploadQueue_after_spinner)
    then show ?thesis
      using False settled unfolding Let_def t_def [symmetric] by simp
  qed
qed

theorem queueBuild_requests_after_drain_witness:
  "(\<exists>rest. effects (final (queueBuild exampleExt uploadingWorld)) =
      effects uploadingWorld @
      [SpinniesAdd (Generated 1)
         (i18n ''cli.lib.LocalDevManager.content.uploadingChanges''
            [(''accountIdentifier'', ''demo account'')]) None,
       UploadQueuePause,
       SpinniesUpdate (Generated 0)
         (i18n ''cli.lib.LocalDevManager.upload.uploadedChange'' [(''filePath'', ''a.jsx'')])
         (Some ''non-spinnable''),
       UploadQueueOnIdleResolved,
       QueueBuild 123 ''demo''] @ rest \<and>
      list_all notQueueBuild rest) \<and>
   (\<exists>s'. queueBuild exampleExt
            (uploadingWorld\<lparr>uploadQueue := \<lparr>isPaused = True,
               waiting = [FlushTask (exampleChange ''b.jsx'')],
               pending = [(exampleChange ''a.jsx'', Generated 0)]\<rparr>\<rparr>) = Blocked s' \<and>
      filter isQueueBuildCall (effects s') = [])"
proof -
  let ?w = "uploadingWorld\<lparr>uploadQueue := \<lparr>isPaused = True,
               waiting = [FlushTask (exampleChange ''b.jsx'')],
               pending = [(exampleChange ''a.jsx'', Generated 0)]\<rparr>\<rparr>"
  have u: "waiting (uploadQueue uploadingWorld) = []"
    "pending (uploadQueue uploadingWorld) = [(exampleChange ''a.jsx'', Generated 0)]"
    "nextSpinniesKey uploadingWorld = 1" "targetAccountId uploadingWorld = 123"
    "name (projectConfig uploadingWorld) = ''demo''"
    by (simp_all add: uploadingWorld_def exampleWorld_def)
  have x: "uiAccountDescription exampleExt 123 = ''demo account''"
    "settleCalls exampleExt (exampleChange ''a.jsx'', Generated 0) =
       [SpinniesUpdate (Generated 0)
         (i18n ''cli.lib.LocalDevManager.upload.uploadedChange'' [(''filePath'', ''a.jsx'')])
         (Some ''non-spinnable'')]"
    by (simp_all add: exampleExt_def settleCalls_def exampleChange_def)
  have 1: "\<exists>rest. effects (final (queueBuild exampleExt uploadingWorld)) =
      effects uploadingWorld @
      [SpinniesAdd (Generated 1)
         (i18n ''cli.lib.LocalDevManager.content.uploadingChanges''
            [(''accountIdentifier'', ''demo account'')]) None,
       UploadQueuePause,
       SpinniesUpdate (Generated 0)
         (i18n ''cli.lib.LocalDevManager.upload.uploadedChange'' [(''filePath'', ''a.jsx'')])
         (Some ''non-spinnable''),
       UploadQueueOnIdleResolved,
       QueueBuild 123 ''demo''] @ rest \<and>
      list_all notQueueBuild rest"
    using queueBuild_requests_after_drain [of uploadingWorld exampleExt]
    by (auto simp: Let_def u x)
  have e: "filter isQueueBuildCall (effects uploadingWorld) = []"
    by (simp add: uploadingWorld_def exampleWorld_def isQueueBuildCall_def exampleChange_def)
  have 2: "\<exists>s'. queueBuild exampleExt ?w = Blocked s' \<and> filter isQueueBuildCall (effects s') = []"
    using queueBuild_requests_after_drain [of ?w exampleExt]
    by (auto simp: Let_def u x e isQueueBuildCall_def)
  from 1 2 show ?thesis by blast
qed

subsection \<open>Queueing a build: a failing request\<close>

text \<open>
  The calls of \<^verbatim>\<open>stop\<close>, in order, and its exit code: \<^verbatim>\<open>ERROR\<close> exactly when there is a staged
  build and cancelling it fails with an error other than \<^verbatim>\<open>BUILD_NOT_IN_PROGRESS\<close>.
\<close>

lemma stop_calls:
  "stop X s =
     Exited (if truthy (currentStagedBuildId s) \<and>
                (\<exists>e. cancelStagedBuild X = Some e \<and> \<not> isSpecifiedError X e BUILD_NOT_IN_PROGRESS)
             then ERROR else SUCCESS)
       (s\<lparr>effects := effects s @
            [SpinniesRemoveAll (preserveCategory ''header''),
             SpinniesAdd (Key ''cleanupMessage'') (i18n ''cli.lib.LocalDevManager.exitingStart'' []) None,
             WatcherClose,
             DevServerCleanup] @
            (case cleanup X of
               None \<Rightarrow> []
             | Some e \<Rightarrow>
                 (if debug s then [LoggerError e] else []) @
                 [SpinniesAdd (Key ''devServerCleanupError'')
                    (i18n ''cli.lib.LocalDevManager.content.devServerCleanupError'' [])
                    (Some ''non-spinnable'')]) @
            (if truthy (currentStagedBuildId s)
             then CancelStagedBuild (targetAccountId s) (name (projectConfig s)) #
                  (case cancelStagedBuild X of
                     None \<Rightarrow> []
                   | Some e \<Rightarrow>
                       if isSpecifiedError X e BUILD_NOT_IN_PROGRESS then []
                       else [LogApiErrorInstance e (targetAccountId s) (name (projectConfig s))])
             else []) @
            [if truthy (currentStagedBuildId s) \<and>
                (\<exists>e. cancelStagedBuild X = Some e \<and> \<not> isSpecifiedError X e BUILD_NOT_IN_PROGRESS)
             then SpinniesFail (Key ''cleanupMessage'') (i18n ''cli.lib.LocalDevManager.exitingFail'' [])
             else SpinniesSucceed (Key ''cleanupMessage'') (i18n ''cli.lib.LocalDevManager.exitingSucceed'' []),
             ProcessExit (if truthy (currentStagedBuildId s) \<and>
                (\<exists>e. cancelStagedBuild X = Some e \<and> \<not> isSpecifiedError X e BUILD_NOT_IN_PROGRESS)
             then ERROR else SUCCESS)]\<rparr>)"
  by (cases "cancelStagedBuild X"; cases "cleanup X")
     (simp_all add: stop_def Let_def clearConsoleContent_def stopWatching_def cleanupServers_def
        emit_def i18nKey_def)

text \<open>
  When the remote request fails, \<^verbatim>\<open>queueBuild\<close> has drained the queue and made the request;
  what follows depends on the error only through \<^verbatim>\<open>MISSING_PROJECT_PROVISION\<close>.
\<close>

lemma queueBuild_request_fails:
  assumes "waiting (uploadQueue s) = []" and "queueBuildRequest X = Some err"
  shows "queueBuild X s =
     (let s1 = s\<lparr>nextSpinniesKey := Suc (nextSpinniesKey s),
                  effects := effects s @
                    [SpinniesAdd (Generated (nextSpinniesKey s))
                       (i18n ''cli.lib.LocalDevManager.content.uploadingChanges''
                          [(''accountIdentifier'', uiAccountDescription X (targetAccountId s))]) None,
                     UploadQueuePause] @
                    concat (map (settleCalls X) (pending (uploadQueue s))) @
                    [UploadQueueOnIdleResolved,
                     QueueBuild (targetAccountId s) (name (projectConfig s)),
                     LoggerDebug err],
                  uploadQueue := \<lparr>isPaused = True, waiting = [], pending = []\<rparr>\<rparr>
      in if isSpecifiedError X err MISSING_PROJECT_PROVISION
         then stop X (emit (LoggerLog (i18n ''cli.lib.LocalDevManager.cancelledFromUI'' [])) s1)
         else Returned (emit (LogApiErrorInstance err (targetAccountId s) (name (projectConfig s))) s1))"
  using assms
  by (simp add: queueBuild_def split_beta pauseUploadQueue_after_spinner Let_def i18nKey_def)
     (simp add: emit_def)

text \<open>
  Claim C6. Let the remote \<^verbatim>\<open>queueBuild\<close> request fail with \<open>err\<close> (it is reached when the
  queue has drained).

  If \<open>err\<close> is \<^verbatim>\<open>MISSING_PROJECT_PROVISION\<close>, the session ends through the ordinary shutdown and
  \<open>err\<close> is not reported with \<^verbatim>\<open>logApiErrorInstance\<close>. After \<^verbatim>\<open>logger.debug(err)\<close> the calls are
  exactly: the \<^verbatim>\<open>cancelledFromUI\<close> log; the console content is cleared and the \<^verbatim>\<open>cleanupMessage\<close>
  spinner added; the watcher is closed; the dev server is cleaned up (a failure there adds
  the \<^verbatim>\<open>devServerCleanupError\<close> spinner); if there is a staged build it is cancelled; the
  \<^verbatim>\<open>cleanupMessage\<close> spinner is settled and \<^verbatim>\<open>process.exit\<close> is called. The exit code is
  \<^verbatim>\<open>SUCCESS\<close> and the spinner succeeds, unless there is a staged build and cancelling it fails
  with an error other than \<^verbatim>\<open>BUILD_NOT_IN_PROGRESS\<close>: then that error is reported with
  \<^verbatim>\<open>logApiErrorInstance\<close>, the spinner fails and the exit code is \<^verbatim>\<open>ERROR\<close>.

  For any other \<open>err\<close>, \<^verbatim>\<open>queueBuild\<close> reports it with \<^verbatim>\<open>logApiErrorInstance\<close> and returns: that
  is its last call, so no build is polled, no new staged build is provisioned and the queue is
  not started; \<^verbatim>\<open>currentStagedBuildId\<close> and the standby list are as before, and the upload
  queue is paused and empty.
\<close>

theorem queueBuild_request_failure:
  assumes "waiting (uploadQueue s) = []" and "queueBuildRequest X = Some err"
  shows "queueBuild X s =
     (let cancelFailed =
            (truthy (currentStagedBuildId s) \<and>
             (\<exists>e. cancelStagedBuild X = Some e \<and> \<not> isSpecifiedError X e BUILD_NOT_IN_PROGRESS));
          requested =
            effects s @
            [SpinniesAdd (Generated (nextSpinniesKey s))
               (i18n ''cli.lib.LocalDevManager.content.uploadingChanges''
                  [(''accountIdentifier'', uiAccountDescription X (targetAccountId s))]) None,
             UploadQueuePause] @
            concat (map (settleCalls X) (pending (uploadQueue s))) @
            [UploadQueueOnIdleResolved,
             QueueBuild (targetAccountId s) (name (projectConfig s)),
             LoggerDebug err]
      in if isSpecifiedError X err MISSING_PROJECT_PROVISION
         then Exited (if cancelFailed then ERROR else SUCCESS)
                (s\<lparr>nextSpinniesKey := Suc (nextSpinniesKey s),
                   effects := requested @
                     [LoggerLog (i18n ''cli.lib.LocalDevManager.cancelledFromUI'' []),
                      SpinniesRemoveAll (preserveCategory ''header''),
                      SpinniesAdd (Key ''cleanupMessage'')
                        (i18n ''cli.lib.LocalDevManager.exitingStart'' []) None,
                      WatcherClose,
                      DevServerCleanup] @
                     (case cleanup X of
                        None \<Rightarrow> []
                      | Some e \<Rightarrow>
                          (if debug s then [LoggerError e] else []) @
                          [SpinniesAdd (Key ''devServerCleanupError'')
                             (i18n ''cli.lib.LocalDevManager.content.devServerCleanupError'' [])
                             (Some ''non-spinnable'')]) @
                     (if truthy (currentStagedBuildId s)
                      then CancelStagedBuild (targetAccountId s) (name (projectConfig s)) #
                           (case cancelStagedBuild X of
                              None \<Rightarrow> []
                            | Some e \<Rightarrow>
                                if isSpecifiedError X e BUILD_NOT_IN_PROGRESS then []
                                else [LogApiErrorInstance e (targetAccountId s) (name (projectConfig s))])
                      else []) @
                     [if cancelFailed
                      then SpinniesFail (Key ''cleanupMessage'')
                             (i18n ''cli.lib.LocalDevManager.exitingFail'' [])
                      else SpinniesSucceed (Key ''cleanupMessage'')
                             (i18n ''cli.lib.LocalDevManager.exitingSucceed'' []),
                      ProcessExit (if cancelFailed then ERROR else SUCCESS)],
                   uploadQueue := \<lparr>isPaused = True, waiting = [], pending = []\<rparr>\<rparr>)
         else Returned
                (s\<lparr>nextSpinniesKey := Suc (nextSpinniesKey s),
                   effects := requested @
                     [LogApiErrorInstance err (targetAccountId s) (name (projectConfig s))],
                   uploadQueue := \<lparr>isPaused = True, waiting = [], pending = []\<rparr>\<rparr>))"
proof -
  define cancelFailed where "cancelFailed \<longleftrightarrow>
     truthy (currentStagedBuildId s) \<and>
     (\<exists>e. cancelStagedBuild X = Some e \<and> \<not> isSpecifiedError X e BUILD_NOT_IN_PROGRESS)"
  define requested where "requested =
     effects s @
     [SpinniesAdd (Generated (nextSpinniesKey s))
        (i18n ''cli.lib.LocalDevManager.content.uploadingChanges''
           [(''accountIdentifier'', uiAccountDescription X (targetAccountId s))]) None,
      UploadQueuePause] @
     concat (map (settleCalls X) (pending (uploadQueue s))) @
     [UploadQueueOnIdleResolved,
      QueueBuild (targetAccountId s) (name (projectConfig s)),
      LoggerDebug err]"
  define s1 where "s1 = s\<lparr>nextSpinniesKey := Suc (nextSpinniesKey s), effects := requested,
                            uploadQueue := \<lparr>isPaused = True, waiting = [], pending = []\<rparr>\<rparr>"
  define s2 where "s2 = emit (LoggerLog (i18n ''cli.lib.LocalDevManager.cancelledFromUI'' [])) s1"
  have q: "queueBuild X s =
     (if isSpecifiedError X err MISSING_PROJECT_PROVISION then stop X s2
      else Returned (emit (LogApiErrorInstance err (targetAccountId s) (name (projectConfig s))) s1))"
    using queueBuild_request_fails [OF assms]
    unfolding Let_def s1_def s2_def requested_def by simp
  have f: "currentStagedBuildId s2 = currentStagedBuildId s" "targetAccountId s2 = targetAccountId s"
    "projectConfig s2 = projectConfig s" "debug s2 = debug s"
    "effects s2 = requested @ [LoggerLog (i18n ''cli.lib.LocalDevManager.cancelledFromUI'' [])]"
    by (simp_all add: s2_def s1_def emit_def)
  have r: "s2\<lparr>effects := requested @ [l] @ es\<rparr> =
           s\<lparr>nextSpinniesKey := Suc (nextSpinniesKey s), effects := requested @ l # es,
             uploadQueue := \<lparr>isPaused = True, waiting = [], pending = []\<rparr>\<rparr>" for l es
    by (simp add: s2_def s1_def emit_def)
  have e: "emit l s1 =
           s\<lparr>nextSpinniesKey := Suc (nextSpinniesKey s), effects := requested @ [l],
             uploadQueue := \<lparr>isPaused = True, waiting = [], pending = []\<rparr>\<rparr>" for l
    by (simp add: s1_def emit_def)
  show ?thesis
  proof (cases "isSpecifiedError X err MISSING_PROJECT_PROVISION")
    case True
    have "queueBuild X s = stop X s2" using q True by simp
    then show ?thesis
      unfolding stop_calls f Let_def cancelFailed_def [symmetric] requested_def [symmetric]
      using True r by (simp only: append_assoc append.simps if_True)
  next
    case False
    have "queueBuild X s =
       Returned (emit (LogApiErrorInstance err (targetAccountId s) (name (projectConfig s))) s1)"
      using q False by simp
    then show ?thesis
      unfolding Let_def requested_def [symmetric] e
      using False by (simp only: if_False)
  qed
qed

theorem queueBuild_request_failure_witness:
  "waiting (uploadQueue uploadingWorld) = [] \<and>
   queueBuildRequest (exampleExt\<lparr>queueBuildRequest := Some (Error ''503'')\<rparr>) = Some (Error ''503'') \<and>
   queueBuild (exampleExt\<lparr>queueBuildRequest := Some (Error ''503'')\<rparr>) uploadingWorld =
     Returned
       (uploadingWorld
          \<lparr>nextSpinniesKey := 2,
           effects := effects uploadingWorld @
             [SpinniesAdd (Generated 1)
                (i18n ''cli.lib.LocalDevManager.content.uploadingChanges''
                   [(''accountIdentifier'', ''demo account'')]) None,
              UploadQueuePause,
              SpinniesUpdate (Generated 0)
                (i18n ''cli.lib.LocalDevManager.upload.uploadedChange'' [(''filePath'', ''a.jsx'')])
                (Some ''non-spinnable''),
              UploadQueueOnIdleResolved,
              QueueBuild 123 ''demo'',
              LoggerDebug (Error ''503''),
              LogApiErrorInstance (Error ''503'') 123 ''demo''],
           uploadQueue := \<lparr>isPaused = True, waiting = [], pending = []\<rparr>\<rparr>) \<and>
   queueBuildRequest
     (exampleExt\<lparr>queueBuildRequest := Some (Error ''MISSING_PROJECT_PROVISION''),
        isSpecifiedError := \<lambda>e t. e = Error ''MISSING_PROJECT_PROVISION''
                                \<and> t = MISSING_PROJECT_PROVISION\<rparr>) =
     Some (Error ''MISSING_PROJECT_PROVISION'') \<and>
   queueBuild
     (exampleExt\<lparr>queueBuildRequest := Some (Error ''MISSING_PROJECT_PROVISION''),
        isSpecifiedError := \<lambda>e t. e = Error ''MISSING_PROJECT_PROVISION''
                                \<and> t = MISSING_PROJECT_PROVISION\<rparr>)
     uploadingWorld =
     Exited SUCCESS
       (uploadingWorld
          \<lparr>nextSpinniesKey := 2,
           effects := effects uploadingWorld @
             [SpinniesAdd (Generated 1)
                (i18n ''cli.lib.LocalDevManager.content.uploadingChanges''
                   [(''accountIdentifier'', ''demo account'')]) None,
              UploadQueuePause,
              SpinniesUpdate (Generated 0)
                (i18n ''cli.lib.LocalDevManager.upload.uploadedChange'' [(''filePath'', ''a.jsx'')])
                (Some ''non-spinnable''),
              UploadQueueOnIdleResolved,
              QueueBuild 123 ''demo'',
              LoggerDebug (Error ''MISSING_PROJECT_PROVISION''),
              LoggerLog (i18n ''cli.lib.LocalDevManager.cancelledFromUI'' []),
              SpinniesRemoveAll (preserveCategory ''header''),
              SpinniesAdd (Key ''cleanupMessage'')
                (i18n ''cli.lib.LocalDevManager.exitingStart'' []) None,
              WatcherClose,
              DevServerCleanup,
              CancelStagedBuild 123 ''demo'',
              SpinniesSucceed (Key ''cleanupMessage'')
                (i18n ''cli.lib.LocalDevManager.exitingSucceed'' []),
              ProcessExit SUCCESS],
           uploadQueue := \<lparr>isPaused = True, waiting = [], pending = []\<rparr>\<rparr>)"
proof -
  let ?X1 = "exampleExt\<lparr>queueBuildRequest := Some (Error ''503'')\<rparr>"
  let ?X2 = "exampleExt\<lparr>queueBuildRequest := Some (Error ''MISSING_PROJECT_PROVISION''),
               isSpecifiedError := \<lambda>e t. e = Error ''MISSING_PROJECT_PROVISION''
                                       \<and> t = MISSING_PROJECT_PROVISION\<rparr>"
  have w: "waiting (uploadQueue uploadingWorld) = []"
    by (simp add: uploadingWorld_def)
  have u: "currentStagedBuildId uploadingWorld = Some 7" "targetAccountId uploadingWorld = 123"
    "name (projectConfig uploadingWorld) = ''demo''" "nextSpinniesKey uploadingWorld = 1"
    "pending (uploadQueue uploadingWorld) = [(exampleChange ''a.jsx'', Generated 0)]"
    "debug uploadingWorld = False"
    by (simp_all add: uploadingWorld_def exampleWorld_def)
  have x: "isSpecifiedError exampleExt = (\<lambda>e t. False)" "cancelStagedBuild exampleExt = None"
    "cleanup exampleExt = None" "uiAccountDescription exampleExt = (\<lambda>a. ''demo account'')"
    "uploadFileToBuild exampleExt = (\<lambda>p r. None)"
    by (simp_all add: exampleExt_def)
  have c: "event (exampleChange ''a.jsx'') = change" "remotePath (exampleChange ''a.jsx'') = ''a.jsx''"
    by (simp_all add: exampleChange_def)
  have f1: "queueBuildRequest ?X1 = Some (Error ''503'')" by simp
  have f2: "queueBuildRequest ?X2 = Some (Error ''MISSING_PROJECT_PROVISION'')" by simp
  have 1: "queueBuild ?X1 uploadingWorld =
     Returned
       (uploadingWorld
          \<lparr>nextSpinniesKey := 2,
           effects := effects uploadingWorld @
             [SpinniesAdd (Generated 1)
                (i18n ''cli.lib.LocalDevManager.content.uploadingChanges''
                   [(''accountIdentifier'', ''demo account'')]) None,
              UploadQueuePause,
              SpinniesUpdate (Generated 0)
                (i18n ''cli.lib.LocalDevManager.upload.uploadedChange'' [(''filePath'', ''a.jsx'')])
                (Some ''non-spinnable''),
              UploadQueueOnIdleResolved,
              QueueBuild 123 ''demo'',
              LoggerDebug (Error ''503''),
              LogApiErrorInstance (Error ''503'') 123 ''demo''],
           uploadQueue := \<lparr>isPaused = True, waiting = [], pending = []\<rparr>\<rparr>)"
    using queueBuild_request_failure [OF w f1]
    by (simp add: Let_def x u c settleCalls_def)
  have 2: "queueBuild ?X2 uploadingWorld =
     Exited SUCCESS
       (uploadingWorld
          \<lparr>nextSpinniesKey := 2,
           effects := effects uploadingWorld @
             [SpinniesAdd (Generated 1)
                (i18n ''cli.lib.LocalDevManager.content.uploadingChanges''
                   [(''accountIdentifier'', ''demo account'')]) None,
              UploadQueuePause,
              SpinniesUpdate (Generated 0)
                (i18n ''cli.lib.LocalDevManager.upload.uploadedChange'' [(''filePath'', ''a.jsx'')])
                (Some ''non-spinnable''),
              UploadQueueOnIdleResolved,
              QueueBuild 123 ''demo'',
              LoggerDebug (Error ''MISSING_PROJECT_PROVISION''),
              LoggerLog (i18n ''cli.lib.LocalDevManager.cancelledFromUI'' []),
              SpinniesRemoveAll (preserveCategory ''header''),
              SpinniesAdd (Key ''cleanupMessage'')
                (i18n ''cli.lib.LocalDevManager.exitingStart'' []) None,
              WatcherClose,
              DevServerCleanup,
              CancelStagedBuild 123 ''demo'',
              SpinniesSucceed (Key ''cleanupMessage'')
                (i18n ''cli.lib.LocalDevManager.exitingSucceed'' []),
              ProcessExit SUCCESS],
           uploadQueue := \<lparr>isPaused = True, waiting = [], pending = []\<rparr>\<rparr>)"
    using queueBuild_request_failure [OF w f2]
    by (simp add: Let_def x u c settleCalls_def truthy_def)
  from w f1 1 f2 2 show ?thesis by (intro conjI)
qed

text \<open>
  Claim C6, the case that is not a clean stop. The request fails with
  \<^verbatim>\<open>MISSING_PROJECT_PROVISION\<close> while build 7 is staged, and cancelling that build fails with
  another error (\<^verbatim>\<open>500\<close>): the shutdown reports the error with \<^verbatim>\<open>logApiErrorInstance\<close>, fails the
  \<^verbatim>\<open>cleanupMessage\<close> spinner and exits with \<^verbatim>\<open>ERROR\<close>.
\<close>

theorem queueBuild_missing_provision_exits_with_error:
  "queueBuild
     (exampleExt\<lparr>queueBuildRequest := Some (Error ''MISSING_PROJECT_PROVISION''),
        cancelStagedBuild := Some (Error ''500''),
        isSpecifiedError := \<lambda>e t. e = Error ''MISSING_PROJECT_PROVISION''
                                \<and> t = MISSING_PROJECT_PROVISION\<rparr>)
     uploadingWorld =
     Exited ERROR
       (uploadingWorld
          \<lparr>nextSpinniesKey := 2,
           effects := effects uploadingWorld @
             [SpinniesAdd (Generated 1)
                (i18n ''cli.lib.LocalDevManager.content.uploadingChanges''
                   [(''accountIdentifier'', ''demo account'')]) None,
              UploadQueuePause,
              SpinniesUpdate (Generated 0)
                (i18n ''cli.lib.LocalDevManager.upload.uploadedChange'' [(''filePath'', ''a.jsx'')])
                (Some ''non-spinnable''),
              UploadQueueOnIdleResolved,
              QueueBuild 123 ''demo'',
              LoggerDebug (Error ''MISSING_PROJECT_PROVISION''),
              LoggerLog (i18n ''cli.lib.LocalDevManager.cancelledFromUI'' []),
              SpinniesRemoveAll (preserveCategory ''header''),
              SpinniesAdd (Key ''cleanupMessage'')
                (i18n ''cli.lib.LocalDevManager.exitingStart'' []) None,
              WatcherClose,
              DevServerCleanup,
              CancelStagedBuild 123 ''demo'',
              LogApiErrorInstance (Error ''500'') 123 ''demo'',
              SpinniesFail (Key ''cleanupMessage'')
                (i18n ''cli.lib.LocalDevManager.exitingFail'' []),
              ProcessExit ERROR],
           uploadQueue := \<lparr>isPaused = True, waiting = [], pending = []\<rparr>\<rparr>)"
proof -
  let ?X = "exampleExt\<lparr>queueBuildRequest := Some (Error ''MISSING_PROJECT_PROVISION''),
        cancelStagedBuild := Some (Error ''500''),
        isSpecifiedError := \<lambda>e t. e = Error ''MISSING_PROJECT_PROVISION''
                                \<and> t = MISSING_PROJECT_PROVISION\<rparr>"
  have w: "waiting (uploadQueue uploadingWorld) = []"
    by (simp add: uploadingWorld_def)
  have u: "currentStagedBuildId uploadingWorld = Some 7" "targetAccountId uploadingWorld = 123"
    "name (projectConfig uploadingWorld) = ''demo''" "nextSpinniesKey uploadingWorld = 1"
    "pending (uploadQueue uploadingWorld) = [(exampleChange ''a.jsx'', Generated 0)]"
    "debug uploadingWorld = False"
    by (simp_all add: uploadingWorld_def exampleWorld_def)
  have x: "cleanup exampleExt = None" "uiAccountDescription exampleExt = (\<lambda>a. ''demo account'')"
    "uploadFileToBuild exampleExt = (\<lambda>p r. None)"
    by (simp_all add: exampleExt_def)
  have c: "event (exampleChange ''a.jsx'') = change" "remotePath (exampleChange ''a.jsx'') = ''a.jsx''"
    by (simp_all add: exampleChange_def)
  have f: "queueBuildRequest ?X = Some (Error ''MISSING_PROJECT_PROVISION'')" by simp
  show ?thesis
    unfolding queueBuild_request_fails [OF w f] stop_calls
    by (simp add: Let_def x u c settleCalls_def truthy_def emit_def)
qed

subsection \<open>The debounced build\<close>


lemma elapse_simps [simp]:
  "clock (elapse dt s) = clock s + dt"
  "timers (elapse dt s) = timers s"
  "debouncedBuild (elapse dt s) = debouncedBuild s"
  "nextTimeout (elapse dt s) = nextTimeout s"
  "effects (elapse dt s) = effects s"
  "uploadQueue (elapse dt s) = uploadQueue s"
  by (simp_all add: elapse_def)


lemma andThen_Returned [simp]: "andThen r Returned = r"
  by (cases r) simp_all





subsection \<open>Flushing the standby list\<close>

lemma addedTasks_append [simp]: "addedTasks (xs @ ys) = addedTasks xs @ addedTasks ys"
  by (simp add: addedTasks_def)

lemma addedTasks_Nil [simp]: "addedTasks [] = []"
  by (simp add: addedTasks_def)

lemma quiet_refl [simp]: "quiet s s"
  by (simp add: quiet_def)

lemma quiet_trans: "quiet s s1 \<Longrightarrow> quiet s1 s2 \<Longrightarrow> quiet s s2"
  by (simp add: quiet_def)

lemma quiet_debounceQueueBuild: "quiet s (debounceQueueBuild s)"
  by (simp add: quiet_def debounceQueueBuild_def setTimeout_def clearTimeout_def
      updateDevModeStatus_emit Let_def addedTasks_def split: option.splits)

lemma quiet_sendChangesCall: "quiet s (snd (sendChangesCall ci s))"
  by (simp add: quiet_def sendChangesCall_def split_beta addedTasks_def)

lemma quiet_queue_update: "quiet s s1 \<Longrightarrow> quiet s (s1\<lparr>uploadQueue := q\<rparr>)"
  by (simp add: quiet_def)

lemma quiet_runTask: "quiet s (runTask t s)"
proof (cases t)
  case (SendChangesTask ci)
  then show ?thesis
    by (simp add: runTask_def split_beta quiet_queue_update quiet_sendChangesCall)
next
  case (FlushTask ci)
  have "quiet s (snd (sendChangesCall ci (debounceQueueBuild s)))"
    by (rule quiet_trans [OF quiet_debounceQueueBuild quiet_sendChangesCall])
  then show ?thesis using FlushTask
    by (simp add: runTask_def split_beta Let_def quiet_queue_update quiet_sendChangesCall)
qed

lemma quiet_tryToStartAnother: "tryToStartAnother s = Some s' \<Longrightarrow> quiet s s'"
proof -
  assume a: "tryToStartAnother s = Some s'"
  then obtain t ts where
    s': "s' = runTask t (s\<lparr>uploadQueue := (uploadQueue s)\<lparr>waiting := ts\<rparr>\<rparr>)"
    by (auto simp: tryToStartAnother_def split: list.splits if_splits)
  have "quiet (s\<lparr>uploadQueue := (uploadQueue s)\<lparr>waiting := ts\<rparr>\<rparr>) s'"
    unfolding s' by (rule quiet_runTask)
  then show ?thesis by (simp add: quiet_def)
qed

lemma addedTasks_settleCalls [simp]: "addedTasks (settleCalls X p) = []"
  by (cases "event (fst p) = add \<or> event (fst p) = change";
      cases "uploadFileToBuild X (filePath (fst p)) (remotePath (fst p))";
      cases "deleteFileFromBuild X (remotePath (fst p))")
     (simp_all add: settleCalls_def addedTasks_def)

lemma quiet_settleOldest: "quiet s (settleOldest X s)"
proof (cases "pending (uploadQueue s)")
  case Nil
  then show ?thesis by (simp add: settleOldest_def)
next
  case (Cons p rest)
  let ?s2 = "(sendChangesSettle X (fst p) (snd p) s)\<lparr>uploadQueue :=
      (uploadQueue (sendChangesSettle X (fst p) (snd p) s))\<lparr>pending := rest\<rparr>\<rparr>"
  have a: "quiet s ?s2"
    by (simp add: quiet_def sendChangesSettle_calls)
  show ?thesis
  proof (cases "tryToStartAnother ?s2")
    case None
    then show ?thesis using a by (simp add: settleOldest_def Cons Let_def)
  next
    case (Some s3)
    from quiet_trans [OF a quiet_tryToStartAnother [OF Some]]
    show ?thesis using Some by (simp add: settleOldest_def Cons Let_def)
  qed
qed

lemma quiet_settleAll: "quiet s (settleAll X s)"
proof (induction X s rule: settleAll.induct)
  case (1 X s)
  show ?case
  proof (cases "pending (uploadQueue s) = []")
    case True
    then show ?thesis by (simp add: settleAll.simps [of X s])
  next
    case False
    from quiet_trans [OF quiet_settleOldest "1.IH" [OF False]]
    show ?thesis using False by (simp add: settleAll.simps [of X s])
  qed
qed

lemma quiet_whenSettled: "quiet s (final (whenSettled X s))"
  by (simp add: whenSettled_def Let_def quiet_settleAll)

lemma uploadQueue_add_added:
  "addedTasks (effects (uploadQueue_add t s)) = addedTasks (effects s) @ [t]"
  "standbyChanges (uploadQueue_add t s) = standbyChanges s"
  "uploadPermission (uploadQueue_add t s) = uploadPermission s"
  "projectSourceDir (uploadQueue_add t s) = projectSourceDir s"
proof -
  let ?s2 = "(emit (UploadQueueAdd t) s)\<lparr>uploadQueue :=
      (uploadQueue (emit (UploadQueueAdd t) s))\<lparr>waiting := waiting (uploadQueue (emit (UploadQueueAdd t) s)) @ [t]\<rparr>\<rparr>"
  have q: "quiet ?s2 (uploadQueue_add t s)"
    by (cases "tryToStartAnother ?s2")
       (simp_all add: uploadQueue_add_def Let_def quiet_tryToStartAnother)
  have a: "addedTasks (effects ?s2) = addedTasks (effects s) @ [t]"
    by (simp add: addedTasks_def)
  from q a show "addedTasks (effects (uploadQueue_add t s)) = addedTasks (effects s) @ [t]"
    by (simp add: quiet_def)
  from q show "standbyChanges (uploadQueue_add t s) = standbyChanges s"
    "uploadPermission (uploadQueue_add t s) = uploadPermission s"
    "projectSourceDir (uploadQueue_add t s) = projectSourceDir s"
    by (simp_all add: quiet_def)
qed

lemma uploadQueue_addAll_added:
  "addedTasks (effects (uploadQueue_addAll ts s)) = addedTasks (effects s) @ ts \<and>
   standbyChanges (uploadQueue_addAll ts s) = standbyChanges s \<and>
   uploadPermission (uploadQueue_addAll ts s) = uploadPermission s \<and>
   projectSourceDir (uploadQueue_addAll ts s) = projectSourceDir s"
  unfolding uploadQueue_addAll_def
  by (induction ts arbitrary: s) (simp_all add: uploadQueue_add_added)

lemma flushStandbyChanges_begin_added:
  "addedTasks (effects (flushStandbyChanges_begin s)) =
     addedTasks (effects s) @ map FlushTask (standbyChanges s)"
  "standbyChanges (flushStandbyChanges_begin s) = standbyChanges s"
  "uploadPermission (flushStandbyChanges_begin s) = uploadPermission s"
  "projectSourceDir (flushStandbyChanges_begin s) = projectSourceDir s"
  by (simp_all add: flushStandbyChanges_begin_def uploadQueue_addAll_added)

lemma flushStandbyChanges_empty:
  "standbyChanges s = [] \<Longrightarrow> flushStandbyChanges X s = Returned s"
  by (simp add: flushStandbyChanges_def)

lemma handlePreventedUpload_manual:
  assumes "uploadPermission s = manual"
    and "find (\<lambda>c. filePath c = filePath ci) (standbyChanges s) = None"
    and "(event ci = unlink \<or> event ci = unlinkDir \<or> isAllowedExtension X (filePath ci) [''jsx''])
         \<and> \<not> shouldIgnoreFile X (filePath ci) True"
  shows "standbyChanges (handlePreventedUpload X ci s) = standbyChanges s @ [ci\<lparr>supported := Some False\<rparr>]"
    and "addedTasks (effects (handlePreventedUpload X ci s)) = addedTasks (effects s)"
proof -
  have a: "addChangeToStandbyQueue X (ci\<lparr>supported := Some False\<rparr>) s1 =
           s1\<lparr>standbyChanges := standbyChanges s1 @ [ci\<lparr>supported := Some False\<rparr>]\<rparr>" for s1
    using assms(3) by (cases "event ci") (simp_all add: addChangeToStandbyQueue_def)
  show "standbyChanges (handlePreventedUpload X ci s) = standbyChanges s @ [ci\<lparr>supported := Some False\<rparr>]"
    using assms(1,2) by (simp add: handlePreventedUpload_def Let_def updateDevModeStatus_emit a)
  show "addedTasks (effects (handlePreventedUpload X ci s)) = addedTasks (effects s)"
    using assms(1,2)
    by (simp add: handlePreventedUpload_def Let_def updateDevModeStatus_emit a addedTasks_def)
qed

lemma addedTasks_notifyServers [simp]:
  "addedTasks (effects (snd (notifyServers X ci s))) = addedTasks (effects s)"
  by (simp add: notifyServers_cases addedTasks_def split: sum.splits)

lemma lateWorld_reached:
  "handleWatchEvent exampleExt ''/p/src/b.jsx'' change (flushStandbyChanges_begin manualWorld)
     = Returned lateWorld"
  by (simp add: handleWatchEvent_def notifyServers_def handlePreventedUpload_def
      addChangeToStandbyQueue_def flushStandbyChanges_begin_def uploadQueue_addAll_def
      updateDevModeStatus_emit uploadQueue_add_def
      tryToStartAnother_def runTask_def sendChangesCall_def spinniesAddNull_def emit_def
      concurrency_def i18nKey_def Let_def
      lateWorld_def manualWorld_def exampleWorld_def exampleExt_def exampleChange_def)

lemma whenSettled_nothing_waiting:
  assumes "waiting (uploadQueue s) = []"
  shows "whenSettled X s =
     Returned (s\<lparr>effects := effects s @ concat (map (settleCalls X) (pending (uploadQueue s))),
                uploadQueue := (uploadQueue s)\<lparr>pending := []\<rparr>\<rparr>)"
proof -
  have "settleAll X s' =
       s'\<lparr>effects := effects s' @ concat (map (settleCalls X) (pending (uploadQueue s'))),
          uploadQueue := (uploadQueue s')\<lparr>pending := []\<rparr>\<rparr>"
    if "waiting (uploadQueue s') = []" for s'
    using that
  proof (induction X s' rule: settleAll.induct)
    case (1 X s)
    show ?case
    proof (cases "pending (uploadQueue s)")
      case Nil
      then show ?thesis by (simp add: settleAll.simps [of X s] pqueue_pending_same)
    next
      case (Cons p rest)
      have so: "settleOldest X s =
           s\<lparr>effects := effects s @ settleCalls X p,
              uploadQueue := (uploadQueue s)\<lparr>pending := rest\<rparr>\<rparr>"
        using "1.prems"
        by (simp add: settleOldest_def Cons Let_def tryToStartAnother_def sendChangesSettle_calls)
      have ne: "pending (uploadQueue s) \<noteq> []" by (simp add: Cons)
      have w: "waiting (uploadQueue (settleOldest X s)) = []"
        using "1.prems" by (simp add: so)
      have "settleAll X s = settleAll X (settleOldest X s)"
        using ne by (simp add: settleAll.simps [of X s])
      also have "\<dots> = (settleOldest X s)\<lparr>effects := effects (settleOldest X s) @
          concat (map (settleCalls X) (pending (uploadQueue (settleOldest X s)))),
          uploadQueue := (uploadQueue (settleOldest X s))\<lparr>pending := []\<rparr>\<rparr>"
        by (rule "1.IH" [OF ne w])
      also have "\<dots> = s\<lparr>effects := effects s @ concat (map (settleCalls X) (pending (uploadQueue s))),
          uploadQueue := (uploadQueue s)\<lparr>pending := []\<rparr>\<rparr>"
        by (simp add: so Cons)
      finally show ?thesis .
    qed
  qed
  from this [OF assms] assms show ?thesis
    by (simp add: whenSettled_def Let_def)
qed

text \<open>
  Claim C3 says that \<^verbatim>\<open>flushStandbyChanges\<close> snapshots the standby list, empties it and
  hands every entry to the upload queue, in one atomic step. The tasks are indeed added in the
  order of the list (\<open>flushStandbyChanges_begin_added\<close>), and a flush of an empty list does
  nothing (\<open>flushStandbyChanges_empty\<close>). But the list is emptied only in line 564, after the
  \<^verbatim>\<open>await\<close> on \<^verbatim>\<open>addAll\<close>, which lasts until the uploads have settled. A change that another
  watch event puts on the list during that wait is not among the tasks handed to the queue,
  and is removed from the list when the flush resumes: it is lost without an upload.
\<close>

theorem flushStandbyChanges_drops_late_change:
  assumes "uploadPermission s = manual"
    and "standbyChanges s \<noteq> []"
    and "\<not> str_includes path ''dist''"
    and "case notify X \<lparr>event = ev, filePath = path,
              remotePath = path_relative X (projectSourceDir s) path, supported = None\<rparr> of
           Inl e \<Rightarrow> True | Inr response \<Rightarrow> uploadRequired response"
    and "find (\<lambda>c. filePath c = path) (standbyChanges s) = None"
    and "(ev = unlink \<or> ev = unlinkDir \<or> isAllowedExtension X path [''jsx''])
         \<and> \<not> shouldIgnoreFile X path True"
  shows "\<exists>s2. handleWatchEvent X path ev (flushStandbyChanges_begin s) = Returned s2 \<and>
           standbyChanges s2 =
             standbyChanges s @
             [\<lparr>event = ev, filePath = path, remotePath = path_relative X (projectSourceDir s) path,
               supported = Some False\<rparr>] \<and>
           (\<forall>s3. whenSettled X s2 = Returned s3 \<longrightarrow>
              addedTasks (effects s3) = addedTasks (effects s) @ map FlushTask (standbyChanges s) \<and>
              standbyChanges (flushStandbyChanges_resume s3) = [])"
proof -
  define ci where "ci = \<lparr>event = ev, filePath = path,
      remotePath = path_relative X (projectSourceDir s) path, supported = None\<rparr>"
  define s1 where "s1 = flushStandbyChanges_begin s"
  define s1' where "s1' = snd (notifyServers X ci s1)"
  define s2 where "s2 = handlePreventedUpload X ci s1'"
  note b = flushStandbyChanges_begin_added [of s, folded s1_def]
  have u: "uploadRequired (fst (notifyServers X ci s1))"
    using assms(4) by (simp add: notifyServers_cases ci_def split: sum.splits)
  have c: "\<lparr>event = ev, filePath = path,
      remotePath = path_relative X (projectSourceDir s1) path, supported = None\<rparr> = ci"
    by (simp add: ci_def b)
  have fp: "filePath ci = path" "event ci = ev" by (simp_all add: ci_def)
  have h: "handleWatchEvent X path ev s1 = Returned s2"
    unfolding handleWatchEvent_def Let_def c split_beta
    using assms(1,3) u by (simp add: fp s2_def s1'_def b)
  have p: "uploadPermission s1' = manual" "standbyChanges s1' = standbyChanges s"
    "addedTasks (effects s1') = addedTasks (effects s) @ map FlushTask (standbyChanges s)"
    by (simp_all add: s1'_def b assms(1))
  have f: "find (\<lambda>c. filePath c = filePath ci) (standbyChanges s1') = None"
    by (simp add: p fp assms(5))
  have g: "(event ci = unlink \<or> event ci = unlinkDir \<or> isAllowedExtension X (filePath ci) [''jsx''])
         \<and> \<not> shouldIgnoreFile X (filePath ci) True"
    using assms(6) by (simp add: fp)
  note m = handlePreventedUpload_manual [OF p(1) f g, folded s2_def]
  have st: "standbyChanges s2 = standbyChanges s @
             [\<lparr>event = ev, filePath = path, remotePath = path_relative X (projectSourceDir s) path,
               supported = Some False\<rparr>]"
    by (simp add: m p) (simp add: ci_def)
  have ad: "addedTasks (effects s2) = addedTasks (effects s) @ map FlushTask (standbyChanges s)"
    by (simp add: m p)
  have last: "addedTasks (effects s3) = addedTasks (effects s) @ map FlushTask (standbyChanges s) \<and>
              standbyChanges (flushStandbyChanges_resume s3) = []"
    if "whenSettled X s2 = Returned s3" for s3
  proof -
    from quiet_whenSettled [of s2 X] that have "quiet s2 s3" by simp
    then show ?thesis by (simp add: quiet_def ad flushStandbyChanges_resume_def)
  qed
  from h st last show ?thesis unfolding s1_def by blast
qed

theorem flushStandbyChanges_drops_late_change_witness:
  "uploadPermission manualWorld = manual \<and>
   standbyChanges manualWorld = [(exampleChange ''a.jsx'')\<lparr>supported := Some False\<rparr>] \<and>
   \<not> str_includes ''/p/src/b.jsx'' ''dist'' \<and>
   (\<exists>s2 s3.
      handleWatchEvent exampleExt ''/p/src/b.jsx'' change (flushStandbyChanges_begin manualWorld)
        = Returned s2 \<and>
      standbyChanges s2 = [(exampleChange ''a.jsx'')\<lparr>supported := Some False\<rparr>,
                           (exampleChange ''b.jsx'')\<lparr>supported := Some False\<rparr>] \<and>
      whenSettled exampleExt s2 = Returned s3 \<and>
      addedTasks (effects s3) = [FlushTask ((exampleChange ''a.jsx'')\<lparr>supported := Some False\<rparr>)] \<and>
      standbyChanges (flushStandbyChanges_resume s3) = [])"
proof -
  have 1: "uploadPermission manualWorld = manual"
    and 2: "standbyChanges manualWorld = [(exampleChange ''a.jsx'')\<lparr>supported := Some False\<rparr>]"
    and e: "effects manualWorld = []"
    and r: "path_relative exampleExt (projectSourceDir manualWorld) ''/p/src/b.jsx'' = ''b.jsx''"
    by (simp_all add: manualWorld_def exampleWorld_def exampleExt_def)
  have ne: "standbyChanges manualWorld \<noteq> []" by (simp add: 2)
  have 3: "\<not> str_includes ''/p/src/b.jsx'' ''dist''" by simp
  have 4: "case notify exampleExt \<lparr>event = change, filePath = ''/p/src/b.jsx'',
              remotePath = path_relative exampleExt (projectSourceDir manualWorld) ''/p/src/b.jsx'',
              supported = None\<rparr> of
           Inl e \<Rightarrow> True | Inr response \<Rightarrow> uploadRequired response"
    by (simp add: exampleExt_def)
  have 5: "find (\<lambda>c. filePath c = ''/p/src/b.jsx'') (standbyChanges manualWorld) = None"
    by (simp add: 2 exampleChange_def)
  have 6: "(change = unlink \<or> change = unlinkDir \<or> isAllowedExtension exampleExt ''/p/src/b.jsx'' [''jsx''])
         \<and> \<not> shouldIgnoreFile exampleExt ''/p/src/b.jsx'' True"
    by (simp add: exampleExt_def)
  from flushStandbyChanges_drops_late_change [OF 1 ne 3 4 5 6] obtain s2 where
    h: "handleWatchEvent exampleExt ''/p/src/b.jsx'' change (flushStandbyChanges_begin manualWorld)
          = Returned s2" and
    st: "standbyChanges s2 = standbyChanges manualWorld @
             [\<lparr>event = change, filePath = ''/p/src/b.jsx'',
               remotePath = path_relative exampleExt (projectSourceDir manualWorld) ''/p/src/b.jsx'',
               supported = Some False\<rparr>]" and
    al: "\<forall>s3. whenSettled exampleExt s2 = Returned s3 \<longrightarrow>
              addedTasks (effects s3) = addedTasks (effects manualWorld) @ map FlushTask (standbyChanges manualWorld) \<and>
              standbyChanges (flushStandbyChanges_resume s3) = []"
    by blast
  from h have s2: "s2 = lateWorld" by (simp add: lateWorld_reached)
  have w: "waiting (uploadQueue lateWorld) = []" by (simp add: lateWorld_def)
  define s3 where "s3 = lateWorld\<lparr>effects := effects lateWorld @
      concat (map (settleCalls exampleExt) (pending (uploadQueue lateWorld))),
      uploadQueue := (uploadQueue lateWorld)\<lparr>pending := []\<rparr>\<rparr>"
  have ws: "whenSettled exampleExt s2 = Returned s3"
    unfolding s2 s3_def by (rule whenSettled_nothing_waiting [OF w])
  from al ws have
    "addedTasks (effects s3) = addedTasks (effects manualWorld) @ map FlushTask (standbyChanges manualWorld)"
    "standbyChanges (flushStandbyChanges_resume s3) = []"
    by blast+
  then have a: "addedTasks (effects s3) = [FlushTask ((exampleChange ''a.jsx'')\<lparr>supported := Some False\<rparr>)]"
    and b: "standbyChanges (flushStandbyChanges_resume s3) = []"
    by (simp_all add: 2 e)
  have st': "standbyChanges s2 = [(exampleChange ''a.jsx'')\<lparr>supported := Some False\<rparr>,
                           (exampleChange ''b.jsx'')\<lparr>supported := Some False\<rparr>]"
    using st by (simp add: 2 r exampleChange_def)
  from 1 2 3 h st' ws a b show ?thesis by blast
qed

end
